theory Spec2Isabelle
  imports Complex_Main "HOL-Library.Sublist"
begin

section \<open>Python values and the helpers of import\_task.py\<close>

text \<open>
  The import data is decoded JSON. A parameter entry is a Python dict (or \<open>None\<close>), its
  \<open>Value\<close> a string, a number, a boolean or an RGBA dict; a colour written to a socket is a
  tuple. Finite floats are rationals. A dict is an association list with distinct keys.
\<close>

datatype pyval =
    PNone
  | PBool bool
  | PInt int
  | PFloat rat
  | PStr string
  | PTuple "pyval list"
  | PDict "(string \<times> pyval) list"

datatype error =
    AttributeError
  | KeyError
  | IndexError
  | TypeError
  | ValueError
  | NameError
  | ReferenceError

text \<open>Sequencing of computations that may raise.\<close>

definition bindR :: "error + 'a \<Rightarrow> ('a \<Rightarrow> error + 'b) \<Rightarrow> error + 'b" where
  "bindR m f = (case m of Inl e \<Rightarrow> Inl e | Inr x \<Rightarrow> f x)"

text \<open>Truth value of a Python object (\<open>if x:\<close>).\<close>

fun truthy :: "pyval \<Rightarrow> bool" where
  "truthy PNone = False"
| "truthy (PBool b) = b"
| "truthy (PInt i) = (i \<noteq> 0)"
| "truthy (PFloat q) = (q \<noteq> 0)"
| "truthy (PStr s) = (s \<noteq> [])"
| "truthy (PTuple xs) = (xs \<noteq> [])"
| "truthy (PDict d) = (d \<noteq> [])"

text \<open>The numeric value of a bool, int or float; \<open>==\<close> compares numbers by value.\<close>

fun num_of :: "pyval \<Rightarrow> rat option" where
  "num_of (PBool b) = Some (if b then 1 else 0)"
| "num_of (PInt i) = Some (of_int i)"
| "num_of (PFloat q) = Some q"
| "num_of _ = None"

definition py_eq :: "pyval \<Rightarrow> pyval \<Rightarrow> bool" where
  "py_eq a b =
     (case (num_of a, num_of b) of
        (Some x, Some y) \<Rightarrow> x = y
      | (None, None) \<Rightarrow> a = b
      | _ \<Rightarrow> False)"

text \<open>\<open>x.get(key)\<close>: only a dict has the method; a missing key gives \<open>None\<close>.\<close>

fun py_get :: "pyval \<Rightarrow> string \<Rightarrow> error + pyval" where
  "py_get (PDict d) k = Inr (case map_of d k of None \<Rightarrow> PNone | Some v \<Rightarrow> v)"
| "py_get _ k = Inl AttributeError"

text \<open>\<open>x[key]\<close> with a string key: \<open>KeyError\<close> on a dict without it, \<open>TypeError\<close> elsewhere.\<close>

fun py_item :: "pyval \<Rightarrow> string \<Rightarrow> error + pyval" where
  "py_item (PDict d) k = (case map_of d k of None \<Rightarrow> Inl KeyError | Some v \<Rightarrow> Inr v)"
| "py_item _ k = Inl TypeError"

text \<open>
  \<open>first\<close>, \<open>where\<close> and \<open>any\<close> of the source, over a predicate that may raise.
  \<open>filter\<close> is lazy and \<open>next\<close> stops at the first hit, so \<open>first\<close> only evaluates the
  predicate up to that element; \<open>where\<close> and \<open>any\<close> build the whole list.
\<close>

fun first_from :: "('a \<Rightarrow> error + bool) \<Rightarrow> 'a list \<Rightarrow> error + 'a option" where
  "first_from expr [] = Inr None"
| "first_from expr (x # xs) =
     bindR (expr x) (\<lambda>b. if b then Inr (Some x) else first_from expr xs)"

definition first :: "'a list \<Rightarrow> ('a \<Rightarrow> error + bool) \<Rightarrow> error + 'a option" where
  "first target expr = (if target = [] then Inr None else first_from expr target)"

fun filter_list :: "('a \<Rightarrow> error + bool) \<Rightarrow> 'a list \<Rightarrow> error + 'a list" where
  "filter_list expr [] = Inr []"
| "filter_list expr (x # xs) =
     bindR (expr x) (\<lambda>b. bindR (filter_list expr xs) (\<lambda>ys. Inr (if b then x # ys else ys)))"

definition where_py :: "'a list \<Rightarrow> ('a \<Rightarrow> error + bool) \<Rightarrow> error + 'a list" where
  "where_py target expr = (if target = [] then Inr [] else filter_list expr target)"

definition any_py :: "'a list \<Rightarrow> ('a \<Rightarrow> error + bool) \<Rightarrow> error + bool" where
  "any_py target expr =
     (if target = [] then Inr False
      else bindR (filter_list expr target) (\<lambda>filtered. Inr (length filtered > 0)))"

subsection \<open>hash\_code\<close>

definition hex_digit :: "nat \<Rightarrow> char" where
  "hex_digit d = ''0123456789abcdef'' ! d"

function hex_digits :: "nat \<Rightarrow> string" where
  "hex_digits n = (if n < 16 then [hex_digit n] else hex_digits (n div 16) @ [hex_digit (n mod 16)])"
  by pat_completeness auto
termination
  by (relation "measure id") auto

declare hex_digits.simps [simp del]

text \<open>Python's \<open>hex\<close>: a sign, the prefix \<open>0x\<close>, lower-case digits.\<close>

definition py_hex :: "int \<Rightarrow> string" where
  "py_hex n = (if n < 0 then ''-0x'' @ hex_digits (nat (- n)) else ''0x'' @ hex_digits (nat n))"

definition hash_code :: "int \<Rightarrow> string" where
  "hash_code num = drop 2 (py_hex (abs num))"

subsection \<open>replace\_or\_add\_parameter\<close>

text \<open>
  The \<open>for index, item in enumerate(list)\<close> loop: a \<open>None\<close> item is skipped, every item
  whose name equals the new one is overwritten (the loop has no \<open>break\<close>).
\<close>

fun replace_loop :: "pyval list \<Rightarrow> pyval \<Rightarrow> error + pyval list" where
  "replace_loop [] replace_item = Inr []"
| "replace_loop (item # rest) replace_item =
     (if item = PNone then bindR (replace_loop rest replace_item) (\<lambda>rest'. Inr (item # rest'))
      else
        bindR (py_get item ''Name'') (\<lambda>n.
        bindR (py_get replace_item ''Name'') (\<lambda>rn.
        bindR (replace_loop rest replace_item) (\<lambda>rest'.
          Inr ((if py_eq n rn then replace_item else item) # rest')))))"

definition same_name :: "pyval \<Rightarrow> pyval \<Rightarrow> error + bool" where
  "same_name replace_item x =
     bindR (py_get x ''Name'') (\<lambda>n.
     bindR (py_get replace_item ''Name'') (\<lambda>rn. Inr (py_eq n rn)))"

definition replace_or_add_parameter :: "pyval list \<Rightarrow> pyval \<Rightarrow> error + pyval list" where
  "replace_or_add_parameter list replace_item =
     (if replace_item = PNone then Inr list
      else
        bindR (replace_loop list replace_item) (\<lambda>list'.
        bindR (any_py list' (same_name replace_item)) (\<lambda>found.
          Inr (if found then list' else list' @ [replace_item]))))"

subsection \<open>The import data\<close>

text \<open>
  \<open>material_data\<close> is the material's dict, \<open>meta_data\<close> the per-mesh dict built by
  \<open>import_model\<close> (\<open>TextureData\<close>, \<open>OverrideParameters\<close>, and \<open>SkinColor\<close> for a body).
  A \<open>TextureData\<close> or \<open>OverrideParameters\<close> that is \<open>None\<close> behaves as the empty list
  in every use the source makes of it.
\<close>

record material_data =
  md_Name :: string
  md_Hash :: int
  md_Textures :: "pyval list"
  md_Scalars :: "pyval list"
  md_Vectors :: "pyval list"
  md_Switches :: "pyval list"
  md_ComponentMasks :: "pyval list"
  md_AbsoluteParent :: pyval
  md_UseGlassMaterial :: pyval
  md_UseFoliageMaterial :: pyval

record texture_data =
  td_Hash :: int
  td_Diffuse :: pyval
  td_Normal :: pyval
  td_Specular :: pyval

record override_parameter =
  op_MaterialNameToAlter :: string
  op_Hash :: int
  op_Textures :: "pyval list"
  op_Scalars :: "pyval list"
  op_Vectors :: "pyval list"

record meta_data =
  meta_TextureData :: "texture_data list"
  meta_OverrideParameters :: "override_parameter list"
  meta_SkinColor :: pyval

subsection \<open>Fingerprint and display name (import\_material, lines 570 to 587)\<close>

definition override_parameters_for :: "meta_data \<Rightarrow> string \<Rightarrow> override_parameter list" where
  "override_parameters_for meta_data material_name =
     filter (\<lambda>param. op_MaterialNameToAlter param = material_name) (meta_OverrideParameters meta_data)"

definition additional_hash_of :: "material_data \<Rightarrow> meta_data \<Rightarrow> int" where
  "additional_hash_of material_data meta_data =
     foldl (\<lambda>h parameters. h + op_Hash parameters)
       (foldl (\<lambda>h data. h + td_Hash data) 0 (meta_TextureData meta_data))
       (override_parameters_for meta_data (md_Name material_data))"

text \<open>The pair (\<open>material_name\<close>, \<open>material_hash\<close>) after line 587.\<close>

definition resolved_name :: "material_data \<Rightarrow> meta_data \<Rightarrow> string" where
  "resolved_name material_data meta_data =
     (let additional_hash = additional_hash_of material_data meta_data
      in if additional_hash \<noteq> 0 then md_Name material_data @ ''_'' @ hash_code additional_hash
         else md_Name material_data)"

definition resolved_hash :: "material_data \<Rightarrow> meta_data \<Rightarrow> int" where
  "resolved_hash material_data meta_data =
     (let additional_hash = additional_hash_of material_data meta_data
      in if additional_hash \<noteq> 0 then md_Hash material_data + additional_hash
         else md_Hash material_data)"

subsection \<open>Override merge (import\_material, lines 606 to 627)\<close>

fun merge_parameters :: "pyval list \<Rightarrow> pyval list \<Rightarrow> error + pyval list" where
  "merge_parameters list [] = Inr list"
| "merge_parameters list (x # xs) =
     bindR (replace_or_add_parameter list x) (\<lambda>list'. merge_parameters list' xs)"

fun merge_texture_data :: "pyval list \<Rightarrow> texture_data list \<Rightarrow> error + pyval list" where
  "merge_texture_data textures [] = Inr textures"
| "merge_texture_data textures (texture_data_inst # rest) =
     bindR (replace_or_add_parameter textures (td_Diffuse texture_data_inst)) (\<lambda>t1.
     bindR (replace_or_add_parameter t1 (td_Normal texture_data_inst)) (\<lambda>t2.
     bindR (replace_or_add_parameter t2 (td_Specular texture_data_inst)) (\<lambda>t3.
       merge_texture_data t3 rest)))"

fun merge_override_parameters ::
  "pyval list \<times> pyval list \<times> pyval list \<Rightarrow> override_parameter list
     \<Rightarrow> error + (pyval list \<times> pyval list \<times> pyval list)" where
  "merge_override_parameters tsv [] = Inr tsv"
| "merge_override_parameters (textures, scalars, vectors) (override_parameter # rest) =
     bindR (merge_parameters textures (op_Textures override_parameter)) (\<lambda>textures'.
     bindR (merge_parameters scalars (op_Scalars override_parameter)) (\<lambda>scalars'.
     bindR (merge_parameters vectors (op_Vectors override_parameter)) (\<lambda>vectors'.
       merge_override_parameters (textures', scalars', vectors') rest)))"

text \<open>
  The lists are those of \<open>material_data\<close> itself and are changed in place, so the caller's
  dict holds the merged lists afterwards.
\<close>

definition merge_overrides :: "material_data \<Rightarrow> meta_data \<Rightarrow> error + material_data" where
  "merge_overrides material_data meta_data =
     bindR (merge_texture_data (md_Textures material_data) (meta_TextureData meta_data)) (\<lambda>textures.
     bindR (merge_override_parameters (textures, md_Scalars material_data, md_Vectors material_data)
              (override_parameters_for meta_data (md_Name material_data))) (\<lambda>(textures', scalars', vectors').
       Inr (material_data\<lparr>md_Textures := textures', md_Scalars := scalars', md_Vectors := vectors'\<rparr>)))"

section \<open>Mapping tables\<close>

text \<open>\<open>int(value)\<close>, the one value transform the tables declare.\<close>

definition is_space :: "char \<Rightarrow> bool" where
  "is_space c = (of_char c \<in> {9, 10, 11, 12, 13, 28, 29, 30, 31, 32 :: nat})"

definition is_digit :: "char \<Rightarrow> bool" where
  "is_digit c = (48 \<le> (of_char c :: nat) \<and> (of_char c :: nat) \<le> 57)"

definition digit_value :: "char \<Rightarrow> nat" where
  "digit_value c = of_char c - 48"

text \<open>Decimal digits, single underscores allowed between two digits.\<close>

fun parse_digits :: "nat \<Rightarrow> string \<Rightarrow> nat option" where
  "parse_digits acc [] = Some acc"
| "parse_digits acc [c] = (if is_digit c then Some (acc * 10 + digit_value c) else None)"
| "parse_digits acc (c # d # ds) =
     (if is_digit c then parse_digits (acc * 10 + digit_value c) (d # ds)
      else if c = CHR ''_'' \<and> is_digit d then parse_digits (acc * 10 + digit_value d) ds
      else None)"

definition strip :: "string \<Rightarrow> string" where
  "strip s = rev (dropWhile is_space (rev (dropWhile is_space s)))"

definition parse_unsigned :: "string \<Rightarrow> nat option" where
  "parse_unsigned s =
     (case s of [] \<Rightarrow> None
      | c # cs \<Rightarrow> if is_digit c then parse_digits (digit_value c) cs else None)"

text \<open>\<open>int\<close> of an ASCII string in base 10.\<close>

definition parse_int :: "string \<Rightarrow> int option" where
  "parse_int s =
     (case strip s of
        [] \<Rightarrow> None
      | c # cs \<Rightarrow>
          if c = CHR ''-'' then map_option (\<lambda>n. - int n) (parse_unsigned cs)
          else if c = CHR ''+'' then map_option int (parse_unsigned cs)
          else map_option int (parse_unsigned (c # cs)))"

definition truncate :: "rat \<Rightarrow> int" where
  "truncate q = (if 0 \<le> q then \<lfloor>q\<rfloor> else \<lceil>q\<rceil>)"

fun py_int :: "pyval \<Rightarrow> error + pyval" where
  "py_int (PBool b) = Inr (PInt (if b then 1 else 0))"
| "py_int (PInt i) = Inr (PInt i)"
| "py_int (PFloat q) = Inr (PInt (truncate q))"
| "py_int (PStr s) = (case parse_int s of None \<Rightarrow> Inl ValueError | Some i \<Rightarrow> Inr (PInt i))"
| "py_int _ = Inl TypeError"

record slot_mapping =
  sm_name :: string
  sm_slot :: string
  sm_alpha_slot :: "string option"
  sm_switch_slot :: "string option"
  sm_value_func :: "(pyval \<Rightarrow> error + pyval) option"
  sm_coords :: string

text \<open>
  The constructor of the class, its arguments in the order of \<open>__init__\<close>; an argument the
  call leaves out is \<open>None\<close> (\<open>''UV0''\<close> for \<open>coords\<close>).
\<close>

definition SlotMapping ::
  "string \<Rightarrow> string option \<Rightarrow> string option \<Rightarrow> string option
     \<Rightarrow> (pyval \<Rightarrow> error + pyval) option \<Rightarrow> string \<Rightarrow> slot_mapping" where
  "SlotMapping name slot alpha_slot switch_slot value_func coords =
     \<lparr>sm_name = name, sm_slot = (case slot of None \<Rightarrow> name | Some s \<Rightarrow> s),
      sm_alpha_slot = alpha_slot, sm_switch_slot = switch_slot, sm_value_func = value_func,
      sm_coords = coords\<rparr>"

record mapping_collection =
  mc_textures :: "slot_mapping list"
  mc_scalars :: "slot_mapping list"
  mc_vectors :: "slot_mapping list"
  mc_switches :: "slot_mapping list"
  mc_component_masks :: "slot_mapping list"

definition MappingCollection ::
  "slot_mapping list \<Rightarrow> slot_mapping list \<Rightarrow> slot_mapping list \<Rightarrow> slot_mapping list
     \<Rightarrow> slot_mapping list \<Rightarrow> mapping_collection" where
  "MappingCollection textures scalars vectors switches component_masks =
     \<lparr>mc_textures = textures, mc_scalars = scalars, mc_vectors = vectors,
      mc_switches = switches, mc_component_masks = component_masks\<rparr>"


definition default_mappings :: mapping_collection where
  "default_mappings = MappingCollection
     [SlotMapping ''Diffuse'' None None None None ''UV0'',
      SlotMapping ''D'' (Some ''Diffuse'') None None None ''UV0'',
      SlotMapping ''Base Color'' (Some ''Diffuse'') None None None ''UV0'',
      SlotMapping ''Concrete'' (Some ''Diffuse'') None None None ''UV0'',
      SlotMapping ''Trunk_BaseColor'' (Some ''Diffuse'') None None None ''UV0'',
      SlotMapping ''Background Diffuse'' None (Some ''Background Diffuse Alpha'') None None ''UV0'',
      SlotMapping ''BG Diffuse Texture'' (Some ''Background Diffuse'') (Some ''Background Diffuse Alpha'') None None ''UV0'',
      SlotMapping ''M'' None None None None ''UV0'',
      SlotMapping ''Mask'' (Some ''M'') None None None ''UV0'',
      SlotMapping ''SpecularMasks'' None None None None ''UV0'',
      SlotMapping ''S'' (Some ''SpecularMasks'') None None None ''UV0'',
      SlotMapping ''SRM'' (Some ''SpecularMasks'') None None None ''UV0'',
      SlotMapping ''Specular Mask'' (Some ''SpecularMasks'') None None None ''UV0'',
      SlotMapping ''Concrete_SpecMask'' (Some ''SpecularMasks'') None None None ''UV0'',
      SlotMapping ''Trunk_Specular'' (Some ''SpecularMasks'') None None None ''UV0'',
      SlotMapping ''Normals'' None None None None ''UV0'',
      SlotMapping ''N'' (Some ''Normals'') None None None ''UV0'',
      SlotMapping ''Normal'' (Some ''Normals'') None None None ''UV0'',
      SlotMapping ''NormalMap'' (Some ''Normals'') None None None ''UV0'',
      SlotMapping ''ConcreteTextureNormal'' (Some ''Normals'') None None None ''UV0'',
      SlotMapping ''Trunk_Normal'' (Some ''Normals'') None None None ''UV0'',
      SlotMapping ''Emissive'' (Some ''Emission'') None None None ''UV0'',
      SlotMapping ''EmissiveTexture'' (Some ''Emission'') None None None ''UV0'',
      SlotMapping ''MaskTexture'' None None None None ''UV0'',
      SlotMapping ''OpacityMask'' (Some ''MaskTexture'') None None None ''UV0'']
     [SlotMapping ''RoughnessMin'' (Some ''Roughness Min'') None None None ''UV0'',
      SlotMapping ''SpecRoughnessMin'' (Some ''Roughness Min'') None None None ''UV0'',
      SlotMapping ''RawRoughnessMin'' (Some ''Roughness Min'') None None None ''UV0'',
      SlotMapping ''RoughnessMax'' (Some ''Roughness Max'') None None None ''UV0'',
      SlotMapping ''SpecRoughnessMax'' (Some ''Roughness Max'') None None None ''UV0'',
      SlotMapping ''RawRoughnessMax'' (Some ''Roughness Max'') None None None ''UV0'',
      SlotMapping ''emissive mult'' (Some ''Emission Strength'') None None None ''UV0'']
     [SlotMapping ''Skin Boost Color And Exponent'' (Some ''Skin Color'') (Some ''Skin Boost'') None None ''UV0'',
      SlotMapping ''SkinTint'' (Some ''Skin Color'') (Some ''Skin Boost'') None None ''UV0'',
      SlotMapping ''EmissiveMultiplier'' (Some ''Emission Multiplier'') None None None ''UV0'',
      SlotMapping ''Emissive Multiplier'' (Some ''Emission Multiplier'') None None None ''UV0'',
      SlotMapping ''Emissive Color'' (Some ''Emission Color'') None (Some ''Use Emission Color'') None ''UV0'']
     [SlotMapping ''SwizzleRoughnessToGreen'' None None None None ''UV0'']
     []"

definition layer_mappings :: mapping_collection where
  "layer_mappings = MappingCollection
     [SlotMapping ''Diffuse'' None None None None ''UV0'',
      SlotMapping ''SpecularMasks'' None None None None ''UV0'',
      SlotMapping ''Normals'' None None None None ''UV0'',
      SlotMapping ''EmissiveTexture'' None None None None ''UV0'',
      SlotMapping ''Diffuse_Texture_2'' None None None None ''UV0'',
      SlotMapping ''SpecularMasks_2'' None None None None ''UV0'',
      SlotMapping ''Normals_Texture_2'' None None None None ''UV0'',
      SlotMapping ''Emissive_Texture_2'' None None None None ''UV0'',
      SlotMapping ''Diffuse_Texture_3'' None None None None ''UV0'',
      SlotMapping ''SpecularMasks_3'' None None None None ''UV0'',
      SlotMapping ''Normals_Texture_3'' None None None None ''UV0'',
      SlotMapping ''Emissive_Texture_3'' None None None None ''UV0'',
      SlotMapping ''Diffuse_Texture_4'' None None None None ''UV0'',
      SlotMapping ''SpecularMasks_4'' None None None None ''UV0'',
      SlotMapping ''Normals_Texture_4'' None None None None ''UV0'',
      SlotMapping ''Emissive_Texture_4'' None None None None ''UV0'',
      SlotMapping ''Diffuse_Texture_5'' None None None None ''UV0'',
      SlotMapping ''SpecularMasks_5'' None None None None ''UV0'',
      SlotMapping ''Normals_Texture_5'' None None None None ''UV0'',
      SlotMapping ''Emissive_Texture_5'' None None None None ''UV0'',
      SlotMapping ''Diffuse_Texture_6'' None None None None ''UV0'',
      SlotMapping ''SpecularMasks_6'' None None None None ''UV0'',
      SlotMapping ''Normals_Texture_6'' None None None None ''UV0'',
      SlotMapping ''Emissive_Texture_6'' None None None None ''UV0'']
     []
     []
     []
     []"

definition toon_mappings :: mapping_collection where
  "toon_mappings = MappingCollection
     [SlotMapping ''LitDiffuse'' None None None None ''UV0'',
      SlotMapping ''ShadedDiffuse'' None None None None ''UV0'',
      SlotMapping ''DistanceField_InkLines'' None None None None ''UV0'',
      SlotMapping ''InkLineColor_Texture'' None None None None ''UV0'',
      SlotMapping ''SSC_Texture'' None None None None ''UV0'',
      SlotMapping ''Normals'' None None None None ''UV0'']
     [SlotMapping ''ShadedColorDarkening'' None None None None ''UV0'',
      SlotMapping ''FakeNormalBlend_Amt'' None None None None ''UV0'',
      SlotMapping ''PBR_Shading'' (Some ''Use PBR Shading'') None None (Some py_int) ''UV0'']
     [SlotMapping ''InkLineColor'' (Some ''InkLineColor_Texture'') None None None ''UV0'']
     []
     []"

definition valet_mappings :: mapping_collection where
  "valet_mappings = MappingCollection
     [SlotMapping ''Diffuse'' None None None None ''UV0'',
      SlotMapping ''Mask'' None (Some ''Mask Alpha'') None None ''UV0'',
      SlotMapping ''Decal'' None (Some ''Decal Alpha'') None None ''UV1'',
      SlotMapping ''Normal'' None None None None ''UV0'',
      SlotMapping ''Specular Mask'' None None None None ''UV0'',
      SlotMapping ''Scratch/Grime/EMPTY'' None None None None ''UV0'']
     [SlotMapping ''Scratch Intensity'' None None None None ''UV0'',
      SlotMapping ''Grime Intensity'' None None None None ''UV0'',
      SlotMapping ''Grime Spec'' None None None None ''UV0'',
      SlotMapping ''Grime Roughness'' None None None None ''UV0'',
      SlotMapping ''Layer 01 Specular'' None None None None ''UV0'',
      SlotMapping ''Layer 01 Metalness'' None None None None ''UV0'',
      SlotMapping ''Layer 01 Roughness Min'' None None None None ''UV0'',
      SlotMapping ''Layer 01 Roughness Max'' None None None None ''UV0'',
      SlotMapping ''Layer 01 Clearcoat'' None None None None ''UV0'',
      SlotMapping ''Layer 01 Clearcoat Roughness Min'' None None None None ''UV0'',
      SlotMapping ''Layer 01 Clearcoat Roughness Max'' None None None None ''UV0'',
      SlotMapping ''Layer 02 Specular'' None None None None ''UV0'',
      SlotMapping ''Layer 02 Metalness'' None None None None ''UV0'',
      SlotMapping ''Layer 02 Roughness Min'' None None None None ''UV0'',
      SlotMapping ''Layer 02 Roughness Max'' None None None None ''UV0'',
      SlotMapping ''Layer 02 Clearcoat'' None None None None ''UV0'',
      SlotMapping ''Layer 02 Clearcoat Roughness Min'' None None None None ''UV0'',
      SlotMapping ''Layer 02 Clearcoat Roughness Max'' None None None None ''UV0'',
      SlotMapping ''Layer 03 Specular'' None None None None ''UV0'',
      SlotMapping ''Layer 03 Metalness'' None None None None ''UV0'',
      SlotMapping ''Layer 03 Roughness Min'' None None None None ''UV0'',
      SlotMapping ''Layer 03 Roughness Max'' None None None None ''UV0'',
      SlotMapping ''Layer 03 Clearcoat'' None None None None ''UV0'',
      SlotMapping ''Layer 03 Clearcoat Roughness Min'' None None None None ''UV0'',
      SlotMapping ''Layer 03 Clearcoat Roughness Max'' None None None None ''UV0'',
      SlotMapping ''Layer 04 Specular'' None None None None ''UV0'',
      SlotMapping ''Layer 04 Metalness'' None None None None ''UV0'',
      SlotMapping ''Layer 04 Roughness Min'' None None None None ''UV0'',
      SlotMapping ''Layer 04 Roughness Max'' None None None None ''UV0'',
      SlotMapping ''Layer 04 Clearcoat'' None None None None ''UV0'',
      SlotMapping ''Layer 04 Clearcoat Roughness Min'' None None None None ''UV0'',
      SlotMapping ''Layer 04 Clearcoat Roughness Max'' None None None None ''UV0'']
     [SlotMapping ''Scratch Tint'' None None None None ''UV0'',
      SlotMapping ''Grime Tint'' None None None None ''UV0'',
      SlotMapping ''Layer 01 Color'' None None None None ''UV0'',
      SlotMapping ''Layer 02 Color'' None None None None ''UV0'',
      SlotMapping ''Layer 03 Color'' None None None None ''UV0'',
      SlotMapping ''Layer 04 Color'' None None None None ''UV0'']
     []
     []"

definition glass_mappings :: mapping_collection where
  "glass_mappings = MappingCollection
     [SlotMapping ''Color_DarkTint'' None None None None ''UV0'',
      SlotMapping ''Diffuse Texture'' (Some ''Color'') None None None ''UV0'',
      SlotMapping ''Normals'' None None None None ''UV0'',
      SlotMapping ''BakedNormal'' (Some ''Normals'') None None None ''UV0'',
      SlotMapping ''Diffuse Texture with Alpha Mask'' (Some ''Color'') (Some ''Mask'') None None ''UV0'']
     [SlotMapping ''Specular'' None None None None ''UV0'',
      SlotMapping ''Metallic'' None None None None ''UV0'',
      SlotMapping ''Roughness'' None None None None ''UV0'',
      SlotMapping ''Window Tint Amount'' (Some ''Tint Amount'') None None None ''UV0'',
      SlotMapping ''Fresnel Exponent'' None None None None ''UV0'',
      SlotMapping ''Fresnel Inner Transparency'' None None None None ''UV0'',
      SlotMapping ''Fresnel Inner Transparency Max Tint'' None None None None ''UV0'',
      SlotMapping ''Fresnel Outer Transparency'' None None None None ''UV0'',
      SlotMapping ''Glass thickness'' (Some ''Thickness'') None None None ''UV0'']
     [SlotMapping ''ColorFront'' (Some ''Color'') None None None ''UV0'',
      SlotMapping ''Base Color'' (Some ''Color'') None None None ''UV0'']
     []
     []"

definition trunk_mappings :: mapping_collection where
  "trunk_mappings = MappingCollection
     [SlotMapping ''Trunk_BaseColor'' (Some ''Diffuse'') None None None ''UV0'',
      SlotMapping ''Trunk_Specular'' (Some ''SpecularMasks'') None None None ''UV0'',
      SlotMapping ''Trunk_Normal'' (Some ''Normals'') None None None ''UV0'']
     []
     []
     []
     []"

definition foliage_mappings :: mapping_collection where
  "foliage_mappings = MappingCollection
     [SlotMapping ''Diffuse'' None None None None ''UV0'',
      SlotMapping ''Normals'' None None None None ''UV0'',
      SlotMapping ''MaskTexture'' None None None None ''UV0'']
     [SlotMapping ''Roughness Leafs'' (Some ''Roughness'') None None None ''UV0'',
      SlotMapping ''Specular_Leafs'' (Some ''Specular'') None None None ''UV0'']
     [SlotMapping ''Color1_Base'' None None None None ''UV0'',
      SlotMapping ''Color2_Lit'' None None None None ''UV0'',
      SlotMapping ''Color3_Shadows'' None None None None ''UV0'']
     []
     []"

definition gradient_mappings :: mapping_collection where
  "gradient_mappings = MappingCollection
     [SlotMapping ''Diffuse'' None None None None ''UV0'',
      SlotMapping ''Layer Mask'' None (Some ''Layer Mask Alpha'') None None ''UV0'',
      SlotMapping ''SkinFX_Mask'' None None None None ''UV0'',
      SlotMapping ''Layer1_Gradient'' None None None None ''UV0'',
      SlotMapping ''Layer2_Gradient'' None None None None ''UV0'',
      SlotMapping ''Layer3_Gradient'' None None None None ''UV0'',
      SlotMapping ''Layer4_Gradient'' None None None None ''UV0'',
      SlotMapping ''Layer5_Gradient'' None None None None ''UV0'']
     []
     []
     [SlotMapping ''use Alpha Channel as mask'' (Some ''Use Layer Mask Alpha'') None None None ''UV0'']
     [SlotMapping ''GmapSkinCustomization_Channel'' None None None None ''UV0'']"


section \<open>The node tree under construction\<close>

text \<open>
  Blender is outside the repository. The model keeps of it what \<open>import_material\<close> reads
  back: the nodes with their sockets, the links, the images and the material settings.
  What it cannot know is a parameter: the node groups of the data file with their input
  names, the file system, and the names Blender gives to new data blocks. Blender's own
  checks on the type of an assigned value are not modelled; an assignment stores the value.
\<close>

record template =
  t_inputs :: "string list"
  t_outputs :: nat
  t_items :: "(string \<times> string list option) list"

record environment =
  node_groups :: "(string \<times> template) list"
  assets_folder :: string
  path_join :: "string \<Rightarrow> string \<Rightarrow> string"
  path_exists :: "string \<Rightarrow> bool"
  loaded_image_name :: "string list \<Rightarrow> string \<Rightarrow> string"
  new_material_name :: "string list \<Rightarrow> string \<Rightarrow> string"
  options :: "(string \<times> pyval) list"

record image_data =
  img_name :: string
  img_filepath :: string
  img_alpha_mode :: string
  img_colorspace :: string

text \<open>
  A socket is a node and a position; an input keeps the value written to it
  (\<open>None\<close>: the default of the node type or group), and so does an output.
\<close>

type_synonym socket = "nat \<times> nat"

type_synonym link = "socket \<times> socket"

record node =
  node_id :: nat
  bl_idname :: string
  node_tree :: "string option"
  node_inputs :: "(string \<times> pyval option) list"
  node_outputs :: "pyval option list"
  location :: "int \<times> int"
  node_image :: "nat option"
  node_attrs :: "(string \<times> pyval) list"

record build =
  nodes :: "node list"
  links :: "link list"
  next_id :: nat
  unused_parameter_offset :: int
  value_cell :: "pyval option"
  images :: "image_data list"
  printed :: "error list"
  blend_method :: string
  shadow_method :: string
  show_transparent_back :: bool
  use_sss_translucency :: bool
  custom_props :: "(string \<times> pyval) list"
  is_toon :: bool

type_synonym 'a act = "build \<Rightarrow> (error + 'a) \<times> build"

definition ret :: "'a \<Rightarrow> 'a act" where
  "ret x s = (Inr x, s)"

definition raise :: "error \<Rightarrow> 'a act" where
  "raise e s = (Inl e, s)"

definition lift :: "error + 'a \<Rightarrow> 'a act" where
  "lift r s = (r, s)"

definition bindE :: "'a act \<Rightarrow> ('a \<Rightarrow> 'b act) \<Rightarrow> 'b act" where
  "bindE m f s = (case m s of (Inl e, s') \<Rightarrow> (Inl e, s') | (Inr x, s') \<Rightarrow> f x s')"

definition modify :: "(build \<Rightarrow> build) \<Rightarrow> unit act" where
  "modify f s = (Inr (), f s)"

definition guard :: "bool \<Rightarrow> unit act \<Rightarrow> unit act" where
  "guard b m = (if b then m else ret ())"

fun for_each :: "('a \<Rightarrow> unit act) \<Rightarrow> 'a list \<Rightarrow> unit act" where
  "for_each body [] = ret ()"
| "for_each body (x # xs) = bindE (body x) (\<lambda>_. for_each body xs)"

subsection \<open>Nodes, sockets and links\<close>

definition builtin_inputs :: "string \<Rightarrow> string list" where
  "builtin_inputs ty =
     (if ty = ''ShaderNodeOutputMaterial'' then [''Surface'', ''Volume'', ''Displacement'', ''Thickness'']
      else if ty = ''ShaderNodeTexImage'' then [''Vector'']
      else [])"

definition builtin_outputs :: "string \<Rightarrow> nat" where
  "builtin_outputs ty =
     (if ty = ''ShaderNodeTexImage'' \<or> ty = ''ShaderNodeVertexColor'' then 2
      else if ty = ''ShaderNodeValue'' \<or> ty = ''ShaderNodeRGB'' \<or> ty = ''ShaderNodeUVMap'' then 1
      else 0)"

definition new_node :: "nat \<Rightarrow> string \<Rightarrow> node" where
  "new_node i ty =
     \<lparr>node_id = i, bl_idname = ty, node_tree = None,
      node_inputs = map (\<lambda>n. (n, None)) (builtin_inputs ty),
      node_outputs = replicate (builtin_outputs ty) None,
      location = (0, 0), node_image = None, node_attrs = []\<rparr>"

definition nodes_new :: "string \<Rightarrow> nat act" where
  "nodes_new ty s =
     (Inr (next_id s), s\<lparr>nodes := nodes s @ [new_node (next_id s) ty], next_id := Suc (next_id s)\<rparr>)"

definition get_node :: "nat \<Rightarrow> node act" where
  "get_node n s =
     (case find (\<lambda>x. node_id x = n) (nodes s) of
        None \<Rightarrow> (Inl ReferenceError, s)
      | Some x \<Rightarrow> (Inr x, s))"

definition update_node :: "nat \<Rightarrow> (node \<Rightarrow> node) \<Rightarrow> unit act" where
  "update_node n f =
     bindE (get_node n) (\<lambda>_.
     modify (\<lambda>s. s\<lparr>nodes := map (\<lambda>x. if node_id x = n then f x else x) (nodes s)\<rparr>))"

definition set_attr :: "nat \<Rightarrow> string \<Rightarrow> pyval \<Rightarrow> unit act" where
  "set_attr n k v = update_node n (\<lambda>x. x\<lparr>node_attrs := (k, v) # filter (\<lambda>kv. fst kv \<noteq> k) (node_attrs x)\<rparr>)"

definition set_location :: "nat \<Rightarrow> int \<times> int \<Rightarrow> unit act" where
  "set_location n p = update_node n (\<lambda>x. x\<lparr>location := p\<rparr>)"

text \<open>\<open>node.node_tree = bpy.data.node_groups.get(name)\<close>: the sockets follow the group.\<close>

definition set_node_tree :: "environment \<Rightarrow> nat \<Rightarrow> string \<Rightarrow> unit act" where
  "set_node_tree env n name =
     update_node n (\<lambda>x.
       case map_of (node_groups env) name of
         None \<Rightarrow> x\<lparr>node_tree := None, node_inputs := [], node_outputs := []\<rparr>
       | Some t \<Rightarrow> x\<lparr>node_tree := Some name, node_inputs := map (\<lambda>i. (i, None)) (t_inputs t),
                      node_outputs := replicate (t_outputs t) None\<rparr>)"

fun index_of :: "'a \<Rightarrow> 'a list \<Rightarrow> nat option" where
  "index_of a [] = None"
| "index_of a (x # xs) = (if x = a then Some 0 else map_option Suc (index_of a xs))"

text \<open>\<open>node.inputs[name]\<close>, \<open>node.inputs[i]\<close>, \<open>node.outputs[i]\<close>, \<open>inputs.find\<close>, \<open>inputs.get\<close>.\<close>

definition input_named :: "nat \<Rightarrow> string \<Rightarrow> socket act" where
  "input_named n name =
     bindE (get_node n) (\<lambda>x.
       case index_of name (map fst (node_inputs x)) of
         None \<Rightarrow> raise KeyError
       | Some i \<Rightarrow> ret (n, i))"

definition input_at :: "nat \<Rightarrow> nat \<Rightarrow> socket act" where
  "input_at n i =
     bindE (get_node n) (\<lambda>x. if i < length (node_inputs x) then ret (n, i) else raise IndexError)"

definition output_at :: "nat \<Rightarrow> nat \<Rightarrow> socket act" where
  "output_at n i =
     bindE (get_node n) (\<lambda>x. if i < length (node_outputs x) then ret (n, i) else raise IndexError)"

definition inputs_find :: "nat \<Rightarrow> string \<Rightarrow> int act" where
  "inputs_find n name =
     bindE (get_node n) (\<lambda>x.
       case index_of name (map fst (node_inputs x)) of
         None \<Rightarrow> ret (- 1)
       | Some i \<Rightarrow> ret (int i))"

definition inputs_get :: "nat \<Rightarrow> string \<Rightarrow> socket option act" where
  "inputs_get n name =
     bindE (get_node n) (\<lambda>x. ret (map_option (Pair n) (index_of name (map fst (node_inputs x)))))"

definition set_input_default :: "socket \<Rightarrow> pyval \<Rightarrow> unit act" where
  "set_input_default sock v =
     update_node (fst sock) (\<lambda>x.
       x\<lparr>node_inputs := (node_inputs x)[snd sock := (fst (node_inputs x ! snd sock), Some v)]\<rparr>)"

definition set_output_default :: "socket \<Rightarrow> pyval \<Rightarrow> unit act" where
  "set_output_default sock v =
     update_node (fst sock) (\<lambda>x. x\<lparr>node_outputs := (node_outputs x)[snd sock := Some v]\<rparr>)"

text \<open>An input takes one link: a new link to it replaces the one it had.\<close>

definition links_new :: "socket \<Rightarrow> socket \<Rightarrow> unit act" where
  "links_new from_socket to_socket =
     modify (\<lambda>s. s\<lparr>links := filter (\<lambda>l. snd l \<noteq> to_socket) (links s) @ [(from_socket, to_socket)]\<rparr>)"

definition socket_links :: "socket \<Rightarrow> link list act" where
  "socket_links to_socket s = (Inr (filter (\<lambda>l. snd l = to_socket) (links s)), s)"

text \<open>\<open>socket.links[0].from_node\<close>.\<close>

definition first_link_from_node :: "socket \<Rightarrow> nat act" where
  "first_link_from_node to_socket =
     bindE (socket_links to_socket) (\<lambda>ls.
       case ls of [] \<Rightarrow> raise IndexError | l # _ \<Rightarrow> ret (fst (fst l)))"

definition nodes_remove :: "nat \<Rightarrow> unit act" where
  "nodes_remove n =
     bindE (get_node n) (\<lambda>_.
     modify (\<lambda>s. s\<lparr>nodes := filter (\<lambda>x. node_id x \<noteq> n) (nodes s),
                   links := filter (\<lambda>l. fst (fst l) \<noteq> n \<and> fst (snd l) \<noteq> n) (links s)\<rparr>))"

definition get_socket_pos :: "node \<Rightarrow> int \<Rightarrow> int \<times> int" where
  "get_socket_pos node index =
     (let start_y = - 80; offset_y = - 22
      in (fst (location node), snd (location node) + start_y + offset_y * index))"

subsection \<open>Images\<close>

fun split_on :: "char \<Rightarrow> string \<Rightarrow> string list" where
  "split_on sep [] = [[]]"
| "split_on sep (c # cs) =
     (if c = sep then [] # split_on sep cs
      else (case split_on sep cs of [] \<Rightarrow> [[c]] | p # ps \<Rightarrow> (c # p) # ps))"

definition format_image_path :: "environment \<Rightarrow> pyval \<Rightarrow> error + (string \<times> string)" where
  "format_image_path env path =
     (case path of
        PStr p \<Rightarrow>
          (case split_on CHR ''.'' p of
             [path', name] \<Rightarrow>
               (let path'' = (if path' \<noteq> [] \<and> hd path' = CHR ''/'' then tl path' else path');
                    ext = ''png'';
                    texture_path = path_join env (assets_folder env) (path'' @ ''.'' @ ext)
                in Inr (texture_path, name))
           | _ \<Rightarrow> Inl ValueError)
      | _ \<Rightarrow> Inl AttributeError)"

definition images_load :: "environment \<Rightarrow> string \<Rightarrow> nat act" where
  "images_load env path s =
     (case index_of path (map img_filepath (images s)) of
        Some i \<Rightarrow> (Inr i, s)
      | None \<Rightarrow>
          (Inr (length (images s)),
           s\<lparr>images := images s @
               [\<lparr>img_name = loaded_image_name env (map img_name (images s)) path,
                 img_filepath = path, img_alpha_mode = ''STRAIGHT'', img_colorspace = ''sRGB''\<rparr>]\<rparr>))"

definition import_image :: "environment \<Rightarrow> pyval \<Rightarrow> nat option act" where
  "import_image env path =
     bindE (lift (format_image_path env path)) (\<lambda>(path', name). (\<lambda>s.
       case index_of name (map img_name (images s)) of
         Some existing \<Rightarrow> (Inr (Some existing), s)
       | None \<Rightarrow>
           if \<not> path_exists env path' then (Inr None, s)
           else bindE (images_load env path') (\<lambda>i. ret (Some i)) s))"

definition update_image :: "nat option \<Rightarrow> (image_data \<Rightarrow> image_data) \<Rightarrow> unit act" where
  "update_image img f =
     (case img of
        None \<Rightarrow> raise AttributeError
      | Some i \<Rightarrow> modify (\<lambda>s. s\<lparr>images := (images s)[i := f (images s ! i)]\<rparr>))"


section \<open>Resolution of the parameters\<close>

definition get_param :: "pyval list \<Rightarrow> string \<Rightarrow> error + pyval" where
  "get_param source name =
     bindR (first source (\<lambda>param. bindR (py_get param ''Name'') (\<lambda>n. Inr (py_eq n (PStr name)))))
       (\<lambda>found. case found of None \<Rightarrow> Inr PNone | Some p \<Rightarrow> py_get p ''Value'')"

definition get_param_multiple :: "pyval list \<Rightarrow> string list \<Rightarrow> error + pyval" where
  "get_param_multiple source names =
     bindR (first source (\<lambda>param. bindR (py_get param ''Name'')
              (\<lambda>n. Inr (list_ex (\<lambda>x. py_eq n (PStr x)) names))))
       (\<lambda>found. case found of None \<Rightarrow> Inr PNone | Some p \<Rightarrow> py_get p ''Value'')"

text \<open>\<open>first(target_mappings.kind, lambda x: x.name == name)\<close>.\<close>

definition find_mapping :: "slot_mapping list \<Rightarrow> pyval \<Rightarrow> slot_mapping option" where
  "find_mapping rules name = find (\<lambda>x. py_eq (PStr (sm_name x)) name) rules"

text \<open>\<open>if mappings.alpha_slot: ...\<close>: the slot is there and is not the empty string.\<close>

definition when_slot :: "string option \<Rightarrow> (string \<Rightarrow> unit act) \<Rightarrow> unit act" where
  "when_slot slot f =
     (case slot of None \<Rightarrow> ret () | Some name \<Rightarrow> if name = [] then ret () else f name)"

definition bool_as_int :: "pyval \<Rightarrow> pyval" where
  "bool_as_int value = PInt (if truthy value then 1 else 0)"

definition apply_value_func :: "slot_mapping \<Rightarrow> pyval \<Rightarrow> error + pyval" where
  "apply_value_func mappings value =
     (case sm_value_func mappings of None \<Rightarrow> Inr value | Some f \<Rightarrow> f value)"

definition set_named_input :: "nat \<Rightarrow> string \<Rightarrow> pyval \<Rightarrow> unit act" where
  "set_named_input n name v = bindE (input_named n name) (\<lambda>sock. set_input_default sock v)"

text \<open>The placement of a parameter without a rule: \<open>label\<close>, \<open>width\<close>, \<open>location\<close>, offset.\<close>

definition place_unused :: "nat \<Rightarrow> pyval \<Rightarrow> int option \<Rightarrow> int \<Rightarrow> unit act" where
  "place_unused node name width pitch =
     bindE (set_attr node ''label'' name) (\<lambda>_.
     bindE (case width of None \<Rightarrow> ret () | Some w \<Rightarrow> set_attr node ''width'' (PInt w)) (\<lambda>_.
     bindE (\<lambda>s. set_location node (400, unused_parameter_offset s) s) (\<lambda>_.
     modify (\<lambda>s. s\<lparr>unused_parameter_offset := unused_parameter_offset s - pitch\<rparr>))))"

text \<open>
  The body of \<open>texture_param\<close> inside its \<open>try\<close>. The image node is created before the rule
  is looked up. \<open>value\<close> is not a local of this function: it is the variable of the
  enclosing \<open>import_material\<close>, unbound until the vertex-colour loop assigns it.
\<close>

definition texture_param_body ::
  "environment \<Rightarrow> pyval \<Rightarrow> mapping_collection \<Rightarrow> nat \<Rightarrow> bool \<Rightarrow> unit act" where
  "texture_param_body env data target_mappings target_node add_unused_params =
     bindE (lift (py_get data ''Name'')) (\<lambda>name.
     bindE (lift (py_get data ''Value'')) (\<lambda>path.
     bindE (nodes_new ''ShaderNodeTexImage'') (\<lambda>node.
     bindE (import_image env path) (\<lambda>img.
     bindE (update_node node (\<lambda>x. x\<lparr>node_image := img\<rparr>)) (\<lambda>_.
     bindE (update_image img (\<lambda>i. i\<lparr>img_alpha_mode := ''CHANNEL_PACKED''\<rparr>)) (\<lambda>_.
     bindE (lift (py_get data ''sRGB'')) (\<lambda>srgb.
     bindE (update_image img (\<lambda>i. i\<lparr>img_colorspace := (if truthy srgb then ''sRGB'' else ''Non-Color'')\<rparr>)) (\<lambda>_.
     bindE (set_attr node ''interpolation'' (PStr ''Smart'')) (\<lambda>_.
     bindE (set_attr node ''hide'' (PBool True)) (\<lambda>_.
       case find_mapping (mc_textures target_mappings) name of
         None \<Rightarrow> guard add_unused_params (place_unused node name None 50)
       | Some mappings \<Rightarrow>
           bindE (inputs_find target_node (sm_slot mappings)) (\<lambda>index.
           bindE (get_node target_node) (\<lambda>target.
           bindE (set_location node (fst (get_socket_pos target index) - 300, snd (get_socket_pos target index))) (\<lambda>_.
           bindE (output_at node 0) (\<lambda>out0.
           bindE (input_named target_node (sm_slot mappings)) (\<lambda>slot.
           bindE (links_new out0 slot) (\<lambda>_.
           bindE (when_slot (sm_alpha_slot mappings) (\<lambda>alpha_slot.
                    bindE (output_at node 1) (\<lambda>out1.
                    bindE (input_named target_node alpha_slot) (\<lambda>alpha.
                    links_new out1 alpha)))) (\<lambda>_.
           bindE (when_slot (sm_switch_slot mappings) (\<lambda>switch_slot.
                    bindE (\<lambda>s. (case value_cell s of None \<Rightarrow> raise NameError | Some value \<Rightarrow> ret value) s) (\<lambda>value.
                    set_named_input target_node switch_slot (bool_as_int value)))) (\<lambda>_.
           guard (sm_coords mappings \<noteq> ''UV0'')
             (bindE (nodes_new ''ShaderNodeUVMap'') (\<lambda>uv.
              bindE (get_node node) (\<lambda>this.
              bindE (set_location uv (fst (location this) - 250, snd (location this))) (\<lambda>_.
              bindE (set_attr uv ''uv_map'' (PStr (sm_coords mappings))) (\<lambda>_.
              bindE (output_at uv 0) (\<lambda>uv0.
              bindE (input_at node 0) (\<lambda>in0.
              links_new uv0 in0)))))))))))))))))))))))))"

definition scalar_param_body ::
  "environment \<Rightarrow> pyval \<Rightarrow> mapping_collection \<Rightarrow> nat \<Rightarrow> bool \<Rightarrow> unit act" where
  "scalar_param_body env data target_mappings target_node add_unused_params =
     bindE (lift (py_get data ''Name'')) (\<lambda>name.
     bindE (lift (py_get data ''Value'')) (\<lambda>value.
       case find_mapping (mc_scalars target_mappings) name of
         None \<Rightarrow>
           guard add_unused_params
             (bindE (nodes_new ''ShaderNodeValue'') (\<lambda>node.
              bindE (output_at node 0) (\<lambda>out0.
              bindE (set_output_default out0 value) (\<lambda>_.
              place_unused node name (Some 250) 100))))
       | Some mappings \<Rightarrow>
           bindE (lift (apply_value_func mappings value)) (\<lambda>value'.
           bindE (set_named_input target_node (sm_slot mappings) value') (\<lambda>_.
           when_slot (sm_switch_slot mappings) (\<lambda>switch_slot.
             set_named_input target_node switch_slot (bool_as_int value'))))))"

text \<open>The tuple \<open>(value[''R''], value[''G''], value[''B''], alpha)\<close>.\<close>

definition rgb_with :: "pyval \<Rightarrow> (pyval \<Rightarrow> error + pyval) \<Rightarrow> error + pyval" where
  "rgb_with value alpha =
     bindR (py_item value ''R'') (\<lambda>r.
     bindR (py_item value ''G'') (\<lambda>g.
     bindR (py_item value ''B'') (\<lambda>b.
     bindR (alpha value) (\<lambda>a. Inr (PTuple [r, g, b, a])))))"

definition rgba :: "pyval \<Rightarrow> error + pyval" where
  "rgba value = rgb_with value (\<lambda>v. py_item v ''A'')"

definition rgb1 :: "pyval \<Rightarrow> error + pyval" where
  "rgb1 value = rgb_with value (\<lambda>v. Inr (PFloat 1))"

definition unused_colour :: "pyval \<Rightarrow> pyval \<Rightarrow> unit act" where
  "unused_colour name value =
     bindE (nodes_new ''ShaderNodeRGB'') (\<lambda>node.
     bindE (lift (rgba value)) (\<lambda>colour.
     bindE (output_at node 0) (\<lambda>out0.
     bindE (set_output_default out0 colour) (\<lambda>_.
     place_unused node name (Some 250) 200))))"

definition vector_param_body ::
  "environment \<Rightarrow> pyval \<Rightarrow> mapping_collection \<Rightarrow> nat \<Rightarrow> bool \<Rightarrow> unit act" where
  "vector_param_body env data target_mappings target_node add_unused_params =
     bindE (lift (py_get data ''Name'')) (\<lambda>name.
     bindE (lift (py_get data ''Value'')) (\<lambda>value.
       case find_mapping (mc_vectors target_mappings) name of
         None \<Rightarrow> guard add_unused_params (unused_colour name value)
       | Some mappings \<Rightarrow>
           bindE (lift (apply_value_func mappings value)) (\<lambda>value'.
           bindE (lift (rgb1 value')) (\<lambda>colour.
           bindE (set_named_input target_node (sm_slot mappings) colour) (\<lambda>_.
           bindE (when_slot (sm_alpha_slot mappings) (\<lambda>alpha_slot.
                    bindE (lift (py_item value' ''A'')) (\<lambda>a.
                    set_named_input target_node alpha_slot a))) (\<lambda>_.
           when_slot (sm_switch_slot mappings) (\<lambda>switch_slot.
             set_named_input target_node switch_slot (bool_as_int value'))))))))"

definition component_mask_param_body ::
  "environment \<Rightarrow> pyval \<Rightarrow> mapping_collection \<Rightarrow> nat \<Rightarrow> bool \<Rightarrow> unit act" where
  "component_mask_param_body env data target_mappings target_node add_unused_params =
     bindE (lift (py_get data ''Name'')) (\<lambda>name.
     bindE (lift (py_get data ''Value'')) (\<lambda>value.
       case find_mapping (mc_component_masks target_mappings) name of
         None \<Rightarrow> guard add_unused_params (unused_colour name value)
       | Some mappings \<Rightarrow>
           bindE (lift (apply_value_func mappings value)) (\<lambda>value'.
           bindE (lift (rgba value')) (\<lambda>colour.
           set_named_input target_node (sm_slot mappings) colour))))"

definition switch_param_body ::
  "environment \<Rightarrow> pyval \<Rightarrow> mapping_collection \<Rightarrow> nat \<Rightarrow> bool \<Rightarrow> unit act" where
  "switch_param_body env data target_mappings target_node add_unused_params =
     bindE (lift (py_get data ''Name'')) (\<lambda>name.
     bindE (lift (py_get data ''Value'')) (\<lambda>value.
       case find_mapping (mc_switches target_mappings) name of
         None \<Rightarrow>
           guard add_unused_params
             (bindE (nodes_new ''ShaderNodeGroup'') (\<lambda>node.
              bindE (set_node_tree env node ''FP Switch'') (\<lambda>_.
              bindE (input_at node 0) (\<lambda>in0.
              bindE (set_input_default in0 (bool_as_int value)) (\<lambda>_.
              place_unused node name (Some 250) 125)))))
       | Some mappings \<Rightarrow>
           bindE (lift (apply_value_func mappings value)) (\<lambda>value'.
           set_named_input target_node (sm_slot mappings) (bool_as_int value'))))"

text \<open>
  \<open>try: ... except Exception: traceback.print_exc()\<close>: what the body did before it raised
  stays, the exception is printed, and the function returns.
\<close>

definition try_except :: "unit act \<Rightarrow> build \<Rightarrow> build" where
  "try_except body s =
     (case body s of
        (Inl e, s') \<Rightarrow> s'\<lparr>printed := printed s' @ [e]\<rparr>
      | (Inr u, s') \<Rightarrow> s')"

definition texture_param ::
  "environment \<Rightarrow> pyval \<Rightarrow> mapping_collection \<Rightarrow> nat \<Rightarrow> bool \<Rightarrow> build \<Rightarrow> build" where
  "texture_param env data target_mappings target_node add_unused_params =
     try_except (texture_param_body env data target_mappings target_node add_unused_params)"

definition scalar_param ::
  "environment \<Rightarrow> pyval \<Rightarrow> mapping_collection \<Rightarrow> nat \<Rightarrow> bool \<Rightarrow> build \<Rightarrow> build" where
  "scalar_param env data target_mappings target_node add_unused_params =
     try_except (scalar_param_body env data target_mappings target_node add_unused_params)"

definition vector_param ::
  "environment \<Rightarrow> pyval \<Rightarrow> mapping_collection \<Rightarrow> nat \<Rightarrow> bool \<Rightarrow> build \<Rightarrow> build" where
  "vector_param env data target_mappings target_node add_unused_params =
     try_except (vector_param_body env data target_mappings target_node add_unused_params)"

definition component_mask_param ::
  "environment \<Rightarrow> pyval \<Rightarrow> mapping_collection \<Rightarrow> nat \<Rightarrow> bool \<Rightarrow> build \<Rightarrow> build" where
  "component_mask_param env data target_mappings target_node add_unused_params =
     try_except (component_mask_param_body env data target_mappings target_node add_unused_params)"

definition switch_param ::
  "environment \<Rightarrow> pyval \<Rightarrow> mapping_collection \<Rightarrow> nat \<Rightarrow> bool \<Rightarrow> build \<Rightarrow> build" where
  "switch_param env data target_mappings target_node add_unused_params =
     try_except (switch_param_body env data target_mappings target_node add_unused_params)"

text \<open>The five loops of \<open>setup_params\<close>, in the order of the source.\<close>

definition setup_params ::
  "environment \<Rightarrow> material_data \<Rightarrow> mapping_collection \<Rightarrow> nat \<Rightarrow> bool \<Rightarrow> build \<Rightarrow> build" where
  "setup_params env material_data mappings target_node add_unused_params s =
     (let s1 = fold (\<lambda>texture. texture_param env texture mappings target_node add_unused_params)
                 (md_Textures material_data) s;
          s2 = fold (\<lambda>scalar. scalar_param env scalar mappings target_node add_unused_params)
                 (md_Scalars material_data) s1;
          s3 = fold (\<lambda>vector. vector_param env vector mappings target_node add_unused_params)
                 (md_Vectors material_data) s2;
          s4 = fold (\<lambda>component_mask. component_mask_param env component_mask mappings target_node add_unused_params)
                 (md_ComponentMasks material_data) s3
      in fold (\<lambda>switch. switch_param env switch mappings target_node add_unused_params)
           (md_Switches material_data) s4)"


section \<open>Selection of the shader family (import\_material, lines 791 to 824)\<close>

definition layer_switch_names :: "string list" where
  "layer_switch_names =
     [''Use 2 Layers'', ''Use 3 Layers'', ''Use 4 Layers'', ''Use 5 Layers'', ''Use 6 Layers'',
      ''Use 7 Layers'', ''Use 2 Materials'', ''Use 3 Materials'', ''Use 4 Materials'',
      ''Use 5 Materials'', ''Use 6 Materials'', ''Use 7 Materials'',
      ''Use_Multiple_Material_Textures'']"

definition extra_layer_names :: "string list" where
  "extra_layer_names =
     [''Diffuse_Texture_2'', ''SpecularMasks_2'', ''Normals_Texture_2'', ''Emissive_Texture_2'',
      ''Diffuse_Texture_3'', ''SpecularMasks_3'', ''Normals_Texture_3'', ''Emissive_Texture_3'',
      ''Diffuse_Texture_4'', ''SpecularMasks_4'', ''Normals_Texture_4'', ''Emissive_Texture_4'',
      ''Diffuse_Texture_5'', ''SpecularMasks_5'', ''Normals_Texture_5'', ''Emissive_Texture_5'',
      ''Diffuse_Texture_6'', ''SpecularMasks_6'', ''Normals_Texture_6'', ''Emissive_Texture_6'']"

text \<open>The conditions of the \<open>if\<close> statements, as the source evaluates them.\<close>

definition layered_test :: "material_data \<Rightarrow> error + bool" where
  "layered_test material_data =
     bindR (get_param_multiple (md_Switches material_data) layer_switch_names) (\<lambda>a.
       if truthy a
       then bindR (get_param_multiple (md_Textures material_data) extra_layer_names) (\<lambda>b. Inr (truthy b))
       else Inr False)"

definition toon_test :: "material_data \<Rightarrow> error + bool" where
  "toon_test material_data =
     any_py [''LitDiffuse'', ''ShadedDiffuse'']
       (\<lambda>x. bindR (get_param (md_Textures material_data) x) (\<lambda>v. Inr (truthy v)))"

definition valet_test :: "material_data \<Rightarrow> bool" where
  "valet_test material_data = py_eq (md_AbsoluteParent material_data) (PStr ''M_FN_Valet_Master'')"

definition glass_test :: "material_data \<Rightarrow> bool" where
  "glass_test material_data = truthy (md_UseGlassMaterial material_data)"

definition trunk_test :: "material_data \<Rightarrow> error + bool" where
  "trunk_test material_data =
     bindR (get_param (md_Switches material_data) ''IsTrunk'') (\<lambda>is_trunk. Inr (truthy is_trunk))"

definition foliage_test :: "material_data \<Rightarrow> bool \<Rightarrow> bool" where
  "foliage_test material_data is_trunk = (truthy (md_UseFoliageMaterial material_data) \<and> \<not> is_trunk)"

definition replace_shader_node :: "environment \<Rightarrow> nat \<Rightarrow> string \<Rightarrow> nat act" where
  "replace_shader_node env shader_node name =
     bindE (nodes_remove shader_node) (\<lambda>_.
     bindE (nodes_new ''ShaderNodeGroup'') (\<lambda>new_shader_node.
     bindE (set_node_tree env new_shader_node name) (\<lambda>_.
     ret new_shader_node)))"

text \<open>
  The statements are separate \<open>if\<close>s, not an \<open>elif\<close> chain: each one whose condition holds
  runs, in this order, on the shader node and the mappings the earlier ones left.
\<close>

definition select_family ::
  "environment \<Rightarrow> material_data \<Rightarrow> nat \<Rightarrow> (nat \<times> mapping_collection) act" where
  "select_family env material_data shader_node0 =
     bindE (lift (layered_test material_data)) (\<lambda>layered.
     bindE (if layered
            then bindE (replace_shader_node env shader_node0 ''FP Layer'') (\<lambda>n. ret (n, layer_mappings))
            else ret (shader_node0, default_mappings)) (\<lambda>(shader_node1, socket_mappings1).
     bindE (lift (toon_test material_data)) (\<lambda>toon.
     bindE (if toon
            then bindE (replace_shader_node env shader_node1 ''FP Toon'') (\<lambda>n. ret (n, toon_mappings))
            else ret (shader_node1, socket_mappings1)) (\<lambda>(shader_node2, socket_mappings2).
     bindE (if valet_test material_data
            then bindE (replace_shader_node env shader_node2 ''FP Valet'') (\<lambda>n. ret (n, valet_mappings))
            else ret (shader_node2, socket_mappings2)) (\<lambda>(shader_node3, socket_mappings3).
     bindE (if glass_test material_data
            then bindE (replace_shader_node env shader_node3 ''FP Glass'') (\<lambda>n.
                 bindE (modify (\<lambda>s. s\<lparr>blend_method := ''BLEND'', show_transparent_back := False\<rparr>)) (\<lambda>_.
                 ret (n, glass_mappings)))
            else ret (shader_node3, socket_mappings3)) (\<lambda>(shader_node4, socket_mappings4).
     bindE (lift (trunk_test material_data)) (\<lambda>is_trunk.
     bindE (ret (if is_trunk then trunk_mappings else socket_mappings4)) (\<lambda>socket_mappings5.
       if foliage_test material_data is_trunk
       then bindE (replace_shader_node env shader_node4 ''FP Foliage'') (\<lambda>n.
            bindE (modify (\<lambda>s. s\<lparr>use_sss_translucency := True\<rparr>)) (\<lambda>_.
            ret (n, foliage_mappings)))
       else ret (shader_node4, socket_mappings5)))))))))"

section \<open>Base graph and post-processing (import\_material, lines 629 to 958)\<close>

definition option_value :: "environment \<Rightarrow> string \<Rightarrow> pyval" where
  "option_value env k = (case map_of (options env) k of None \<Rightarrow> PNone | Some v \<Rightarrow> v)"

text \<open>Lines 629 to 844: output node, shader node, family, parameters, the link to the output.\<close>

definition build_base :: "environment \<Rightarrow> material_data \<Rightarrow> nat act" where
  "build_base env material_data =
     bindE (nodes_new ''ShaderNodeOutputMaterial'') (\<lambda>output_node.
     bindE (set_location output_node (200, 0)) (\<lambda>_.
     bindE (nodes_new ''ShaderNodeGroup'') (\<lambda>shader_node0.
     bindE (set_node_tree env shader_node0 ''FP Material'') (\<lambda>_.
     bindE (select_family env material_data shader_node0) (\<lambda>(shader_node, socket_mappings).
     bindE (modify (setup_params env material_data socket_mappings shader_node True)) (\<lambda>_.
     bindE (output_at shader_node 0) (\<lambda>out0.
     bindE (input_at output_node 0) (\<lambda>in0.
     bindE (links_new out0 in0) (\<lambda>_.
     ret shader_node)))))))))"

text \<open>Line 846; \<open>or\<close> does not evaluate its second operand when the name is a sentinel.\<close>

definition crunch_test :: "string \<Rightarrow> material_data \<Rightarrow> error + bool" where
  "crunch_test material_name material_data =
     (if material_name \<in> set [''MI_VertexCrunch'', ''M_VertexCrunch''] then Inr True
      else bindR (get_param (md_Scalars material_data) ''HT_CrunchVerts'') (\<lambda>v. Inr (py_eq v (PInt 1))))"

text \<open>Lines 847 and 848.\<close>

definition mark_crunch :: "nat \<Rightarrow> unit act" where
  "mark_crunch shader_node =
     bindE (modify (\<lambda>s. s\<lparr>custom_props :=
              (''Crunch Verts'', PBool True) # filter (\<lambda>kv. fst kv \<noteq> ''Crunch Verts'') (custom_props s)\<rparr>)) (\<lambda>_.
     set_named_input shader_node ''Alpha'' (PFloat 0))"

definition skin_colour_fixup :: "meta_data \<Rightarrow> nat \<Rightarrow> unit act" where
  "skin_colour_fixup meta_data shader_node =
     (let skin_color = meta_SkinColor meta_data
      in bindE (if truthy skin_color
                then lift (bindR (py_item skin_color ''A'') (\<lambda>a. Inr (\<not> py_eq a (PInt 0))))
                else ret False) (\<lambda>apply.
         guard apply
           (bindE (lift (rgb1 skin_color)) (\<lambda>colour.
            bindE (set_named_input shader_node ''Skin Color'' colour) (\<lambda>_.
            bindE (lift (py_item skin_color ''A'')) (\<lambda>a.
            set_named_input shader_node ''Skin Boost'' a))))))"

definition emissive_toggle_names :: "string list" where
  "emissive_toggle_names = [''Emissive'', ''UseBasicEmissive'', ''UseAdvancedEmissive'', ''Use Emissive'']"

definition emissive_toggle_fixup :: "material_data \<Rightarrow> nat \<Rightarrow> unit act" where
  "emissive_toggle_fixup material_data shader_node =
     bindE (lift (get_param_multiple (md_Switches material_data) emissive_toggle_names)) (\<lambda>v.
     guard (v = PBool False) (set_named_input shader_node ''Emission Strength'' (PInt 0)))"

definition swizzle_fixup :: "material_data \<Rightarrow> nat \<Rightarrow> unit act" where
  "swizzle_fixup material_data shader_node =
     bindE (lift (get_param (md_Textures material_data) ''SRM'')) (\<lambda>v.
     guard (truthy v) (set_named_input shader_node ''SwizzleRoughnessToGreen'' (PInt 1)))"

text \<open>\<open>name.replace(''Hide '', '''')\<close>.\<close>

fun remove_hide :: "string \<Rightarrow> string" where
  "remove_hide [] = []"
| "remove_hide (c # cs) =
     (if prefix ''Hide '' (c # cs) then remove_hide (drop 4 cs) else c # remove_hide cs)"

definition py_replace_hide :: "pyval \<Rightarrow> error + string" where
  "py_replace_hide name = (case name of PStr s \<Rightarrow> Inr (remove_hide s) | _ \<Rightarrow> Inl AttributeError)"

text \<open>
  \<open>''Hide Element'' in scalar\<close> asks for a key of the dict, not for a name; it is only
  reached for a dict, \<open>scalar.get\<close> having raised before on anything else.
\<close>

definition has_key :: "string \<Rightarrow> pyval \<Rightarrow> bool" where
  "has_key k d = (case d of PDict kvs \<Rightarrow> k \<in> set (map fst kvs) | _ \<Rightarrow> False)"

definition hide_element_step :: "nat \<Rightarrow> pyval \<Rightarrow> unit act" where
  "hide_element_step mask_node scalar =
     bindE (lift (py_get scalar ''Name'')) (\<lambda>name.
     bindE (lift (py_get scalar ''Value'')) (\<lambda>value.
     bindE (modify (\<lambda>s. s\<lparr>value_cell := Some value\<rparr>)) (\<lambda>_.
     guard (has_key ''Hide Element'' scalar)
       (bindE (lift (py_replace_hide name)) (\<lambda>key.
        bindE (inputs_get mask_node key) (\<lambda>input.
          case input of
            None \<Rightarrow> ret ()
          | Some sock \<Rightarrow> bindE (lift (py_int value)) (\<lambda>v. set_input_default sock v)))))))"

definition vertex_mask_fixup :: "environment \<Rightarrow> material_data \<Rightarrow> nat \<Rightarrow> unit act" where
  "vertex_mask_fixup env material_data shader_node =
     bindE (lift (get_param (md_Switches material_data) ''Use Vertex Colors for Mask'')) (\<lambda>v.
     guard (truthy v)
       (bindE (nodes_new ''ShaderNodeVertexColor'') (\<lambda>color_node.
        bindE (set_location color_node (- 400, - 560)) (\<lambda>_.
        bindE (set_attr color_node ''layer_name'' (PStr ''COL0'')) (\<lambda>_.
        bindE (nodes_new ''ShaderNodeGroup'') (\<lambda>mask_node.
        bindE (set_node_tree env mask_node ''FP Vertex Alpha'') (\<lambda>_.
        bindE (set_location mask_node (- 200, - 560)) (\<lambda>_.
        bindE (output_at color_node 0) (\<lambda>c0.
        bindE (input_at mask_node 0) (\<lambda>m0.
        bindE (links_new c0 m0) (\<lambda>_.
        bindE (output_at mask_node 0) (\<lambda>mo.
        bindE (input_named shader_node ''Alpha'') (\<lambda>alpha.
        bindE (links_new mo alpha) (\<lambda>_.
        for_each (hide_element_step mask_node) (md_Scalars material_data)))))))))))))))"

definition emission_crop_vector_params :: "string list" where
  "emission_crop_vector_params =
     [''EmissiveUVs_RG_UpperLeftCorner_BA_LowerRightCorner'',
      ''Emissive Texture UVs RG_TopLeft BA_BottomRight'',
      ''Emissive 2 UV Positioning (RG)UpperLeft (BA)LowerRight'',
      ''EmissiveUVPositioning (RG)UpperLeft (BA)LowerRight'']"

definition emission_crop_switch_params :: "string list" where
  "emission_crop_switch_params = [''CroppedEmissive'', ''Manipulate Emissive Uvs'']"

definition emission_crop_fixup :: "environment \<Rightarrow> material_data \<Rightarrow> nat \<Rightarrow> unit act" where
  "emission_crop_fixup env material_data shader_node =
     bindE (input_named shader_node ''Emission'') (\<lambda>emission_slot.
     bindE (lift (get_param_multiple (md_Vectors material_data) emission_crop_vector_params)) (\<lambda>crop_bounds.
     bindE (if truthy crop_bounds
            then lift (get_param_multiple (md_Switches material_data) emission_crop_switch_params)
            else ret PNone) (\<lambda>crop_switch.
     bindE (socket_links emission_slot) (\<lambda>emission_links.
     guard (truthy crop_bounds \<and> truthy crop_switch \<and> length emission_links > 0)
       (bindE (first_link_from_node emission_slot) (\<lambda>emission_node.
        bindE (nodes_new ''ShaderNodeGroup'') (\<lambda>crop_texture_node.
        bindE (set_node_tree env crop_texture_node ''FP Texture Cropping'') (\<lambda>_.
        bindE (get_node emission_node) (\<lambda>en.
        bindE (set_location crop_texture_node (fst (location en) - 200, snd (location en) + 25)) (\<lambda>_.
        bindE (lift (py_get crop_bounds ''R'')) (\<lambda>r.
        bindE (set_named_input crop_texture_node ''Left'' r) (\<lambda>_.
        bindE (lift (py_get crop_bounds ''G'')) (\<lambda>g.
        bindE (set_named_input crop_texture_node ''Top'' g) (\<lambda>_.
        bindE (lift (py_get crop_bounds ''B'')) (\<lambda>b.
        bindE (set_named_input crop_texture_node ''Right'' b) (\<lambda>_.
        bindE (lift (py_get crop_bounds ''A'')) (\<lambda>a.
        bindE (set_named_input crop_texture_node ''Bottom'' a) (\<lambda>_.
        bindE (output_at crop_texture_node 0) (\<lambda>c0.
        bindE (input_at emission_node 0) (\<lambda>e0.
        links_new c0 e0))))))))))))))))))))"

definition modulate_emissive_fixup :: "material_data \<Rightarrow> nat \<Rightarrow> unit act" where
  "modulate_emissive_fixup material_data shader_node =
     bindE (lift (get_param (md_Switches material_data) ''Modulate Emissive with Diffuse'')) (\<lambda>v.
     guard (truthy v)
       (bindE (input_named shader_node ''Diffuse'') (\<lambda>diffuse.
        bindE (first_link_from_node diffuse) (\<lambda>diffuse_node.
        bindE (output_at diffuse_node 0) (\<lambda>d0.
        bindE (input_named shader_node ''Emission Multiplier'') (\<lambda>mult.
        links_new d0 mult))))))"

text \<open>The loop over the panel \<open>Colors\<close> of the gradient group's interface.\<close>

definition gradient_colour_step :: "nat \<Rightarrow> nat \<Rightarrow> string \<Rightarrow> unit act" where
  "gradient_colour_step gradient_node gmap_node panel_item =
     bindE (input_named gradient_node panel_item) (\<lambda>sock.
     bindE (socket_links sock) (\<lambda>item_links.
     guard (length item_links \<noteq> 0)
       (bindE (output_at gmap_node 0) (\<lambda>g0.
        bindE (first_link_from_node sock) (\<lambda>from_node.
        bindE (input_at from_node 0) (\<lambda>f0.
        links_new g0 f0))))))"

definition gradient_item_step :: "nat \<Rightarrow> nat \<Rightarrow> string \<times> string list option \<Rightarrow> unit act" where
  "gradient_item_step gradient_node gmap_node item =
     guard (fst item = ''Colors'')
       (case snd item of
          None \<Rightarrow> raise AttributeError
        | Some panel_items \<Rightarrow> for_each (gradient_colour_step gradient_node gmap_node) panel_items)"

definition gradient_fixup :: "environment \<Rightarrow> material_data \<Rightarrow> nat \<Rightarrow> unit act" where
  "gradient_fixup env material_data shader_node =
     bindE (lift (get_param (md_Switches material_data) ''useGmapGradientLayers'')) (\<lambda>v.
     guard (truthy v)
       (bindE (nodes_new ''ShaderNodeGroup'') (\<lambda>gradient_node.
        bindE (set_node_tree env gradient_node ''FP Gradient'') (\<lambda>_.
        bindE (set_location gradient_node (- 500, 0)) (\<lambda>_.
        bindE (input_named shader_node ''Diffuse'') (\<lambda>diffuse.
        bindE (first_link_from_node diffuse) (\<lambda>diffuse_node.
        bindE (nodes_remove diffuse_node) (\<lambda>_.
        bindE (output_at gradient_node 0) (\<lambda>g0.
        bindE (input_at shader_node 0) (\<lambda>s0.
        bindE (links_new g0 s0) (\<lambda>_.
        bindE (nodes_new ''ShaderNodeValue'') (\<lambda>gmap_node.
        bindE (set_location gmap_node (- 1000, - 120)) (\<lambda>_.
        bindE (output_at gmap_node 0) (\<lambda>gm0.
        bindE (set_output_default gm0 (PInt 1)) (\<lambda>_.
        bindE (modify (setup_params env material_data gradient_mappings gradient_node False)) (\<lambda>_.
        bindE (get_node gradient_node) (\<lambda>gn.
          case node_tree gn of
            None \<Rightarrow> raise AttributeError
          | Some tree \<Rightarrow>
              for_each (gradient_item_step gradient_node gmap_node)
                (case map_of (node_groups env) tree of None \<Rightarrow> [] | Some t \<Rightarrow> t_items t))))))))))))))))))"

text \<open>Lines 851 to 952, the fix-ups of the default family.\<close>

definition default_fixups :: "environment \<Rightarrow> material_data \<Rightarrow> meta_data \<Rightarrow> nat \<Rightarrow> unit act" where
  "default_fixups env material_data meta_data shader_node =
     bindE (set_named_input shader_node ''AO'' (option_value env ''AmbientOcclusion'')) (\<lambda>_.
     bindE (set_named_input shader_node ''Cavity'' (option_value env ''Cavity'')) (\<lambda>_.
     bindE (set_named_input shader_node ''Subsurface'' (option_value env ''Subsurface'')) (\<lambda>_.
     bindE (skin_colour_fixup meta_data shader_node) (\<lambda>_.
     bindE (emissive_toggle_fixup material_data shader_node) (\<lambda>_.
     bindE (swizzle_fixup material_data shader_node) (\<lambda>_.
     bindE (vertex_mask_fixup env material_data shader_node) (\<lambda>_.
     bindE (emission_crop_fixup env material_data shader_node) (\<lambda>_.
     bindE (modulate_emissive_fixup material_data shader_node) (\<lambda>_.
     gradient_fixup env material_data shader_node)))))))))"

text \<open>\<open>shader_node.node_tree.name\<close>: an \<open>AttributeError\<close> when the group was not found.\<close>

definition tree_name :: "nat \<Rightarrow> string act" where
  "tree_name n =
     bindE (get_node n) (\<lambda>x. case node_tree x of None \<Rightarrow> raise AttributeError | Some name \<Rightarrow> ret name)"

definition toon_fixup :: "environment \<Rightarrow> nat \<Rightarrow> unit act" where
  "toon_fixup env shader_node =
     bindE (set_named_input shader_node ''Brightness'' (option_value env ''ToonBrightness'')) (\<lambda>_.
     modify (\<lambda>s. s\<lparr>is_toon := True\<rparr>))"

definition post_process :: "environment \<Rightarrow> material_data \<Rightarrow> meta_data \<Rightarrow> nat \<Rightarrow> unit act" where
  "post_process env material_data meta_data shader_node =
     bindE (tree_name shader_node) (\<lambda>name.
     bindE (guard (name = ''FP Material'') (default_fixups env material_data meta_data shader_node)) (\<lambda>_.
     bindE (tree_name shader_node) (\<lambda>name'.
     guard (name' = ''FP Toon'') (toon_fixup env shader_node))))"

text \<open>Lines 629 to 958 as a whole.\<close>

definition construct_graph :: "environment \<Rightarrow> string \<Rightarrow> material_data \<Rightarrow> meta_data \<Rightarrow> unit act" where
  "construct_graph env material_name material_data meta_data =
     bindE (build_base env material_data) (\<lambda>shader_node.
     bindE (lift (crunch_test material_name material_data)) (\<lambda>crunch.
       if crunch then mark_crunch shader_node
       else post_process env material_data meta_data shader_node))"


section \<open>import\_material\<close>

text \<open>
  The state of a run: \<open>self.imported_materials\<close> and \<open>self.is_toon\<close> of the
  \<open>DataImportTask\<close>, and of Blender the materials and images (\<open>bpy.data\<close>) and what was
  printed. A material is known by its position in \<open>materials\<close>: two slots hold the same
  material object exactly when they hold the same position.
\<close>

record material =
  mat_name :: string
  mat_use_nodes :: bool
  mat_blend_method :: string
  mat_shadow_method :: string
  mat_show_transparent_back :: bool
  mat_use_sss_translucency :: bool
  mat_custom_props :: "(string \<times> pyval) list"
  mat_nodes :: "node list"
  mat_links :: "link list"

record material_slot =
  slot_link :: string
  slot_material :: "nat option"

record import_task =
  imported_materials :: "int \<rightharpoonup> nat"
  materials :: "material list"
  data_images :: "image_data list"
  task_is_toon :: bool
  stderr :: "error list"

text \<open>\<open>str.casefold\<close> on ASCII names.\<close>

definition casefold_char :: "char \<Rightarrow> char" where
  "casefold_char c =
     (if 65 \<le> (of_char c :: nat) \<and> (of_char c :: nat) \<le> 90 then char_of (of_char c + 32 :: nat) else c)"

definition casefold :: "string \<Rightarrow> string" where
  "casefold s = map casefold_char s"

definition materials_new :: "environment \<Rightarrow> import_task \<Rightarrow> string \<Rightarrow> material" where
  "materials_new env self name =
     \<lparr>mat_name = new_material_name env (map mat_name (materials self)) name,
      mat_use_nodes = False, mat_blend_method = ''OPAQUE'', mat_shadow_method = ''OPAQUE'',
      mat_show_transparent_back = True, mat_use_sss_translucency = False,
      mat_custom_props = [], mat_nodes = [], mat_links = []\<rparr>"

text \<open>Lines 597 to 604: the settings of the material and its emptied node tree.\<close>

definition start_build :: "import_task \<Rightarrow> material \<Rightarrow> build" where
  "start_build self material =
     \<lparr>nodes = [], links = [], next_id = 0, unused_parameter_offset = 0, value_cell = None,
      images = data_images self, printed = stderr self,
      blend_method = ''CLIP'', shadow_method = ''CLIP'',
      show_transparent_back = mat_show_transparent_back material,
      use_sss_translucency = mat_use_sss_translucency material,
      custom_props = mat_custom_props material,
      is_toon = task_is_toon self\<rparr>"

definition built_material :: "material \<Rightarrow> build \<Rightarrow> material" where
  "built_material material s =
     material\<lparr>mat_use_nodes := True, mat_blend_method := blend_method s,
       mat_shadow_method := shadow_method s,
       mat_show_transparent_back := show_transparent_back s,
       mat_use_sss_translucency := use_sss_translucency s,
       mat_custom_props := custom_props s, mat_nodes := nodes s, mat_links := links s\<rparr>"

definition commit :: "import_task \<Rightarrow> nat \<Rightarrow> build \<Rightarrow> import_task" where
  "commit self handle s =
     self\<lparr>materials := (materials self)[handle := built_material (materials self ! handle) s],
       data_images := images s, task_is_toon := is_toon s, stderr := printed s\<rparr>"

text \<open>
  Lines 593 to 627 on a cache miss: the slot keeps its material when that has the resolved
  name (compared case-folded) and gets a new one otherwise, the material is registered
  under the fingerprint, and the override layers are merged into the lists of the dict.
  The result is the task, the handle of the material and the merged dict.
\<close>

definition register_and_merge ::
  "environment \<Rightarrow> import_task \<Rightarrow> material_slot \<Rightarrow> material_data \<Rightarrow> meta_data
     \<Rightarrow> error + (import_task \<times> nat \<times> material_data)" where
  "register_and_merge env self material_slot material_data meta_data =
     (let material_name = resolved_name material_data meta_data;
          material_hash = resolved_hash material_data meta_data
      in case slot_material material_slot of
           None \<Rightarrow> Inl AttributeError
         | Some current \<Rightarrow>
             if length (materials self) \<le> current then Inl ReferenceError
             else
               (let fresh = (casefold (mat_name (materials self ! current)) \<noteq> casefold material_name);
                    handle = (if fresh then length (materials self) else current);
                    self1 = (if fresh
                             then self\<lparr>materials := materials self @ [materials_new env self material_name]\<rparr>
                             else self);
                    self2 = self1\<lparr>imported_materials := (imported_materials self1)(material_hash \<mapsto> handle)\<rparr>
                in bindR (merge_overrides material_data meta_data) (\<lambda>merged.
                     Inr (self2, handle, merged))))"

text \<open>
  Nothing in the file catches an exception that leaves \<open>import_material\<close>: it ends the
  run, so the model returns the error alone. The function returns the slot and the
  material's dict as it leaves them (the lists of the dict are merged in place).
\<close>

definition import_material ::
  "environment \<Rightarrow> import_task \<Rightarrow> material_slot \<Rightarrow> material_data \<Rightarrow> meta_data
     \<Rightarrow> error + (import_task \<times> material_slot \<times> material_data)" where
  "import_material env self material_slot material_data meta_data =
     (let slot = material_slot\<lparr>slot_link := ''OBJECT''\<rparr>;
          material_name = resolved_name material_data meta_data;
          material_hash = resolved_hash material_data meta_data
      in case imported_materials self material_hash of
           Some existing \<Rightarrow> Inr (self, slot\<lparr>slot_material := Some existing\<rparr>, material_data)
         | None \<Rightarrow>
             bindR (register_and_merge env self slot material_data meta_data) (\<lambda>(self2, handle, merged).
               case construct_graph env material_name merged meta_data
                      (start_build self2 (materials self2 ! handle)) of
                 (Inl e, s) \<Rightarrow> Inl e
               | (Inr u, s) \<Rightarrow>
                   Inr (commit self2 handle s, slot\<lparr>slot_material := Some handle\<rparr>, merged)))"

section \<open>Vocabulary and sample data for the statements\<close>

subsection \<open>Vocabulary for the statements about the merge\<close>

fun is_dict :: "pyval \<Rightarrow> bool" where
  "is_dict (PDict d) = True"
| "is_dict _ = False"

text \<open>The name of an entry, and the key under which \<open>==\<close> identifies names.\<close>

definition entry_name :: "pyval \<Rightarrow> pyval" where
  "entry_name x = (case py_get x ''Name'' of Inr n \<Rightarrow> n | Inl e \<Rightarrow> PNone)"

definition norm_key :: "pyval \<Rightarrow> pyval" where
  "norm_key v = (case num_of v of Some q \<Rightarrow> PFloat q | None \<Rightarrow> v)"

definition names_unique :: "pyval list \<Rightarrow> bool" where
  "names_unique xs = distinct (map (\<lambda>x. norm_key (entry_name x)) xs)"

text \<open>
  The merge step as the specification words it: the first entry with an equal name is
  replaced, else the entry is appended.
\<close>

fun spec_replace_first_or_append :: "pyval list \<Rightarrow> pyval \<Rightarrow> pyval list" where
  "spec_replace_first_or_append [] r = [r]"
| "spec_replace_first_or_append (x # xs) r =
     (if py_eq (entry_name x) (entry_name r) then r # xs
      else x # spec_replace_first_or_append xs r)"

text \<open>
  Well-formed layers: the base sequences that take overrides hold dicts, and every override
  entry that applies is a dict or \<open>None\<close>.
\<close>

definition dict_or_None :: "pyval \<Rightarrow> bool" where
  "dict_or_None x = (x = PNone \<or> is_dict x)"

definition well_formed_layers :: "material_data \<Rightarrow> meta_data \<Rightarrow> bool" where
  "well_formed_layers md meta =
     (list_all is_dict (md_Textures md) \<and> list_all is_dict (md_Scalars md) \<and>
      list_all is_dict (md_Vectors md) \<and>
      list_all (\<lambda>td. dict_or_None (td_Diffuse td) \<and> dict_or_None (td_Normal td) \<and>
                      dict_or_None (td_Specular td)) (meta_TextureData meta) \<and>
      list_all (\<lambda>p. list_all dict_or_None (op_Textures p) \<and> list_all dict_or_None (op_Scalars p) \<and>
                     list_all dict_or_None (op_Vectors p))
        (override_parameters_for meta (md_Name md)))"

text \<open>One more override layer, put at position \<open>i\<close> of its list.\<close>

definition add_texture_data :: "nat \<Rightarrow> texture_data \<Rightarrow> meta_data \<Rightarrow> meta_data" where
  "add_texture_data i td meta =
     meta\<lparr>meta_TextureData := take i (meta_TextureData meta) @ td # drop i (meta_TextureData meta)\<rparr>"

definition add_override_parameter :: "nat \<Rightarrow> override_parameter \<Rightarrow> meta_data \<Rightarrow> meta_data" where
  "add_override_parameter i p meta =
     meta\<lparr>meta_OverrideParameters :=
        take i (meta_OverrideParameters meta) @ p # drop i (meta_OverrideParameters meta)\<rparr>"

subsection \<open>Vocabulary for the statements about the graph\<close>

text \<open>The parameters of a material in the order in which \<open>setup_params\<close> resolves them.\<close>

datatype kind = Texture | Scalar | Vector | ComponentMask | Switch

fun param_body ::
  "environment \<Rightarrow> kind \<Rightarrow> pyval \<Rightarrow> mapping_collection \<Rightarrow> nat \<Rightarrow> bool \<Rightarrow> unit act" where
  "param_body env Texture = texture_param_body env"
| "param_body env Scalar = scalar_param_body env"
| "param_body env Vector = vector_param_body env"
| "param_body env ComponentMask = component_mask_param_body env"
| "param_body env Switch = switch_param_body env"

definition resolve ::
  "environment \<Rightarrow> mapping_collection \<Rightarrow> nat \<Rightarrow> bool \<Rightarrow> kind \<times> pyval \<Rightarrow> build \<Rightarrow> build" where
  "resolve env mappings target_node add_unused_params p =
     try_except (param_body env (fst p) (snd p) mappings target_node add_unused_params)"

definition params_in_order :: "material_data \<Rightarrow> (kind \<times> pyval) list" where
  "params_in_order md =
     map (Pair Texture) (md_Textures md) @ map (Pair Scalar) (md_Scalars md) @
     map (Pair Vector) (md_Vectors md) @ map (Pair ComponentMask) (md_ComponentMasks md) @
     map (Pair Switch) (md_Switches md)"

text \<open>A node tree whose node identifiers are all below the next fresh one.\<close>

definition ids_below :: "build \<Rightarrow> bool" where
  "ids_below s = list_all (\<lambda>x. node_id x < next_id s) (nodes s)"

definition has_node :: "build \<Rightarrow> nat \<Rightarrow> bool" where
  "has_node s n = list_ex (\<lambda>x. node_id x = n) (nodes s)"

definition tree_of :: "build \<Rightarrow> nat \<Rightarrow> string option" where
  "tree_of s n = (case find (\<lambda>x. node_id x = n) (nodes s) of None \<Rightarrow> None | Some x \<Rightarrow> node_tree x)"

text \<open>What \<open>node.node_tree\<close> holds after \<open>node.node_tree = bpy.data.node_groups.get(name)\<close>.\<close>

definition group_ref :: "environment \<Rightarrow> string \<Rightarrow> string option" where
  "group_ref env name = (case map_of (node_groups env) name of None \<Rightarrow> None | Some t \<Rightarrow> Some name)"

text \<open>
  The outcome of the family selection in terms of the six conditions: the mapping table,
  and the group that replaces the root node (\<open>None\<close>: the root node is kept).
\<close>

definition chosen_mappings :: "bool \<Rightarrow> bool \<Rightarrow> bool \<Rightarrow> bool \<Rightarrow> bool \<Rightarrow> bool \<Rightarrow> mapping_collection" where
  "chosen_mappings layered toon valet glass trunk foliage =
     (if foliage \<and> \<not> trunk then foliage_mappings
      else if trunk then trunk_mappings
      else if glass then glass_mappings
      else if valet then valet_mappings
      else if toon then toon_mappings
      else if layered then layer_mappings
      else default_mappings)"

definition chosen_template :: "bool \<Rightarrow> bool \<Rightarrow> bool \<Rightarrow> bool \<Rightarrow> bool \<Rightarrow> bool \<Rightarrow> string option" where
  "chosen_template layered toon valet glass trunk foliage =
     (if foliage \<and> \<not> trunk then Some ''FP Foliage''
      else if glass then Some ''FP Glass''
      else if valet then Some ''FP Valet''
      else if toon then Some ''FP Toon''
      else if layered then Some ''FP Layer''
      else None)"


text \<open>A run: the calls of \<open>import_material\<close> that \<open>import_model\<close> makes, one after the other.\<close>

fun import_run ::
  "environment \<Rightarrow> import_task \<Rightarrow> (material_slot \<times> material_data \<times> meta_data) list
     \<Rightarrow> error + import_task" where
  "import_run env self [] = Inr self"
| "import_run env self ((slot, md, meta) # calls) =
     bindR (import_material env self slot md meta) (\<lambda>(self', slot', md'). import_run env self' calls)"

subsection \<open>Sample data\<close>

definition texture_entry :: "string \<Rightarrow> string \<Rightarrow> pyval" where
  "texture_entry name path = PDict [(''Name'', PStr name), (''Value'', PStr path), (''sRGB'', PBool True)]"

definition scalar_entry :: "string \<Rightarrow> pyval \<Rightarrow> pyval" where
  "scalar_entry name v = PDict [(''Name'', PStr name), (''Value'', v)]"

definition sample_material :: material_data where
  "sample_material =
     \<lparr>md_Name = ''M_Body'', md_Hash = 1000,
      md_Textures = [texture_entry ''Diffuse'' ''/Game/T/A.A''],
      md_Scalars = [], md_Vectors = [], md_Switches = [], md_ComponentMasks = [],
      md_AbsoluteParent = PNone, md_UseGlassMaterial = PNone, md_UseFoliageMaterial = PNone\<rparr>"

definition sample_texture_data :: "int \<Rightarrow> texture_data" where
  "sample_texture_data h =
     \<lparr>td_Hash = h, td_Diffuse = texture_entry ''Diffuse'' ''/Game/T/B.B'', td_Normal = PNone,
      td_Specular = PNone\<rparr>"

definition sample_override :: "int \<Rightarrow> override_parameter" where
  "sample_override h =
     \<lparr>op_MaterialNameToAlter = ''M_Body'', op_Hash = h, op_Textures = [],
      op_Scalars = [scalar_entry ''RoughnessMin'' (PFloat 0)], op_Vectors = []\<rparr>"

definition sample_meta :: "texture_data list \<Rightarrow> override_parameter list \<Rightarrow> meta_data" where
  "sample_meta tds ops = \<lparr>meta_TextureData = tds, meta_OverrideParameters = ops, meta_SkinColor = PNone\<rparr>"


definition sample_groups :: "(string \<times> template) list" where
  "sample_groups =
     [(''FP Material'',
        \<lparr>t_inputs = [''Diffuse'', ''SpecularMasks'', ''Normals'', ''Emission'', ''Emission Strength'',
                     ''Alpha'', ''AO'', ''Cavity'', ''Subsurface'', ''Roughness Min'',
                     ''SwizzleRoughnessToGreen''],
         t_outputs = 1, t_items = []\<rparr>),
      (''FP Toon'',
        \<lparr>t_inputs = [''LitDiffuse'', ''ShadedDiffuse'', ''Normals'', ''ShadedColorDarkening'',
                     ''Use PBR Shading'', ''Brightness'', ''Alpha''],
         t_outputs = 1, t_items = []\<rparr>),
      (''FP Glass'',
        \<lparr>t_inputs = [''Color'', ''Normals'', ''Mask'', ''Specular'', ''Alpha''],
         t_outputs = 1, t_items = []\<rparr>),
      (''FP Gradient'',
        \<lparr>t_inputs = [''Diffuse'', ''Layer Mask'', ''Layer Mask Alpha'', ''Layer1_Gradient''],
         t_outputs = 1, t_items = [(''Diffuse'', None), (''Colors'', Some [''Layer1_Gradient''])]\<rparr>),
      (''FP Switch'', \<lparr>t_inputs = [''Value''], t_outputs = 1, t_items = []\<rparr>)]"

definition sample_env :: environment where
  "sample_env =
     \<lparr>node_groups = sample_groups, assets_folder = ''/assets'',
      path_join = (\<lambda>a b. a @ ''/'' @ b), path_exists = (\<lambda>p. True),
      loaded_image_name = (\<lambda>names p. p), new_material_name = (\<lambda>names n. n),
      options = [(''AmbientOcclusion'', PFloat 0), (''Cavity'', PFloat 0),
                 (''Subsurface'', PFloat 0), (''ToonBrightness'', PFloat 1)]\<rparr>"

definition empty_build :: build where
  "empty_build =
     \<lparr>nodes = [], links = [], next_id = 0, unused_parameter_offset = 0, value_cell = None,
      images = [], printed = [], blend_method = ''CLIP'', shadow_method = ''CLIP'',
      show_transparent_back = True, use_sss_translucency = False, custom_props = [],
      is_toon = False\<rparr>"



definition gradient_state :: build where
  "gradient_state =
     empty_build\<lparr>nodes :=
        [(new_node 0 ''ShaderNodeGroup'')
           \<lparr>node_tree := Some ''FP Gradient'',
            node_inputs := map (\<lambda>i. (i, None)) [''Diffuse'', ''Layer Mask'', ''Layer Mask Alpha'', ''Layer1_Gradient''],
            node_outputs := [None]\<rparr>],
        next_id := 1\<rparr>"

definition toon_state :: build where
  "toon_state =
     empty_build\<lparr>nodes :=
        [(new_node 0 ''ShaderNodeGroup'')
           \<lparr>node_tree := Some ''FP Toon'',
            node_inputs := map (\<lambda>i. (i, None)) [''ShadedColorDarkening'', ''Use PBR Shading''],
            node_outputs := [None]\<rparr>],
        next_id := 1\<rparr>"

definition root_state :: build where
  "root_state =
     empty_build\<lparr>nodes :=
        [(new_node 0 ''ShaderNodeGroup'')
           \<lparr>node_tree := Some ''FP Material'',
            node_inputs := map (\<lambda>i. (i, None)) [''Diffuse'', ''Alpha''],
            node_outputs := [None]\<rparr>],
        next_id := 1\<rparr>"

definition toon_scalars :: material_data where
  "toon_scalars =
     \<lparr>md_Name = ''M_Toon'', md_Hash = 3, md_Textures = [],
      md_Scalars = [scalar_entry ''PBR_Shading'' PNone, scalar_entry ''ShadedColorDarkening'' (PFloat (1 / 2))],
      md_Vectors = [], md_Switches = [], md_ComponentMasks = [],
      md_AbsoluteParent = PNone, md_UseGlassMaterial = PNone, md_UseFoliageMaterial = PNone\<rparr>"

definition trunk_foliage_material :: material_data where
  "trunk_foliage_material =
     \<lparr>md_Name = ''M_Tree'', md_Hash = 11,
      md_Textures = [texture_entry ''Trunk_BaseColor'' ''/Game/T/Bark_D.Bark_D''],
      md_Scalars = [], md_Vectors = [],
      md_Switches = [PDict [(''Name'', PStr ''IsTrunk''), (''Value'', PBool True)]],
      md_ComponentMasks = [],
      md_AbsoluteParent = PNone, md_UseGlassMaterial = PNone, md_UseFoliageMaterial = PBool True\<rparr>"

definition crunch_material :: material_data where
  "crunch_material =
     \<lparr>md_Name = ''M_Hidden'', md_Hash = 21, md_Textures = [],
      md_Scalars = [scalar_entry ''HT_CrunchVerts'' (PFloat 1)],
      md_Vectors = [],
      md_Switches = [PDict [(''Name'', PStr ''Emissive''), (''Value'', PBool False)]],
      md_ComponentMasks = [],
      md_AbsoluteParent = PNone, md_UseGlassMaterial = PNone, md_UseFoliageMaterial = PNone\<rparr>"

definition sample_task :: import_task where
  "sample_task =
     \<lparr>imported_materials = Map.empty,
      materials = [\<lparr>mat_name = ''M_Body'', mat_use_nodes = False, mat_blend_method = ''OPAQUE'',
                    mat_shadow_method = ''OPAQUE'', mat_show_transparent_back = True,
                    mat_use_sss_translucency = False, mat_custom_props = [], mat_nodes = [],
                    mat_links = []\<rparr>],
      data_images = [], task_is_toon = False, stderr = []\<rparr>"

definition sample_slot :: material_slot where
  "sample_slot = \<lparr>slot_link = ''DATA'', slot_material = Some 0\<rparr>"


definition crunch_base :: build where
  "crunch_base =
     empty_build\<lparr>nodes :=
        [(new_node 0 ''ShaderNodeOutputMaterial'')\<lparr>location := (200, 0)\<rparr>,
         (new_node 1 ''ShaderNodeGroup'')
           \<lparr>node_tree := Some ''FP Material'',
            node_inputs := map (\<lambda>i. (i, None))
              [''Diffuse'', ''SpecularMasks'', ''Normals'', ''Emission'', ''Emission Strength'',
               ''Alpha'', ''AO'', ''Cavity'', ''Subsurface'', ''Roughness Min'',
               ''SwizzleRoughnessToGreen''],
            node_outputs := [None]\<rparr>,
         (new_node 2 ''ShaderNodeValue'')
           \<lparr>node_outputs := [Some (PFloat 1)], location := (400, 0),
            node_attrs := [(''width'', PInt 250), (''label'', PStr ''HT_CrunchVerts'')]\<rparr>,
         (new_node 3 ''ShaderNodeGroup'')
           \<lparr>node_tree := Some ''FP Switch'', node_inputs := [(''Value'', Some (PInt 0))],
            node_outputs := [None], location := (400, - 100),
            node_attrs := [(''width'', PInt 250), (''label'', PStr ''Emissive'')]\<rparr>],
        links := [((1, 0), (0, 0))], next_id := 4, unused_parameter_offset := - 225\<rparr>"

definition crunch_task :: import_task where
  "crunch_task =
     sample_task\<lparr>materials := materials sample_task @ [materials_new sample_env sample_task ''M_Hidden''],
       imported_materials := (imported_materials sample_task)(21 \<mapsto> 1)\<rparr>"

definition first_import :: "error + (import_task \<times> material_slot \<times> material_data)" where
  "first_import = import_material sample_env sample_task sample_slot crunch_material (sample_meta [] [])"

definition later_imports :: "error + import_task" where
  "later_imports = import_run sample_env (fst (projr first_import))
                     [(sample_slot, sample_material, sample_meta [] [])]"

definition other_slot :: material_slot where
  "other_slot = \<lparr>slot_link = ''DATA'', slot_material = None\<rparr>"

definition glow_env :: "bool \<Rightarrow> environment" where
  "glow_env on_disk =
     sample_env\<lparr>path_exists := (\<lambda>p. on_disk),
       node_groups :=
         [(''FP Material'',
            \<lparr>t_inputs = [''Diffuse'', ''Emission'', ''Emission Multiplier'', ''Alpha'', ''AO'',
                         ''Cavity'', ''Subsurface''],
             t_outputs = 1, t_items = []\<rparr>),
          (''FP Switch'', \<lparr>t_inputs = [''Value''], t_outputs = 1, t_items = []\<rparr>)]\<rparr>"

definition glow_material :: material_data where
  "glow_material =
     \<lparr>md_Name = ''M_Glow'', md_Hash = 9,
      md_Textures = [texture_entry ''Diffuse'' ''/Game/T/D.D''],
      md_Scalars = [], md_Vectors = [],
      md_Switches = [PDict [(''Name'', PStr ''Modulate Emissive with Diffuse''), (''Value'', PBool True)]],
      md_ComponentMasks = [],
      md_AbsoluteParent = PNone, md_UseGlassMaterial = PNone, md_UseFoliageMaterial = PNone\<rparr>"

section \<open>Properties\<close>

subsection \<open>The merge step\<close>

lemma py_eq_norm_key: "py_eq a b \<longleftrightarrow> norm_key a = norm_key b"
  by (cases a; cases b) (auto simp: py_eq_def norm_key_def)

lemma bindR_Inr [simp]: "bindR (Inr x) f = f x"
  by (simp add: bindR_def)

lemma bindR_Inl [simp]: "bindR (Inl e) f = Inl e"
  by (simp add: bindR_def)

lemma bindR_eq_Inr: "bindR m f = Inr y \<longleftrightarrow> (\<exists>x. m = Inr x \<and> f x = Inr y)"
  by (cases m) auto

lemma py_get_dict: "is_dict x \<Longrightarrow> py_get x k = Inr (case x of PDict d \<Rightarrow> (case map_of d k of None \<Rightarrow> PNone | Some v \<Rightarrow> v))"
  by (cases x) auto

lemma py_get_name: "is_dict x \<Longrightarrow> py_get x ''Name'' = Inr (entry_name x)"
  by (cases x) (auto simp: entry_name_def)

lemma py_get_Inr_dict: "py_get x k = Inr v \<Longrightarrow> is_dict x"
  by (cases x) auto

lemma is_dict_not_None: "is_dict x \<Longrightarrow> x \<noteq> PNone"
  by auto

lemma replace_loop_dicts:
  "\<forall>x\<in>set list. is_dict x \<Longrightarrow> is_dict r \<Longrightarrow>
   replace_loop list r = Inr (map (\<lambda>x. if py_eq (entry_name x) (entry_name r) then r else x) list)"
  by (induction list) (auto simp: py_get_name)

lemma filter_list_total:
  "\<forall>x\<in>set xs. expr x = Inr (P x) \<Longrightarrow> filter_list expr xs = Inr (filter P xs)"
  by (induction xs) auto

lemma filter_list_Inr_all:
  "filter_list expr xs = Inr ys \<Longrightarrow> x \<in> set xs \<Longrightarrow> \<exists>b. expr x = Inr b"
  by (induction xs arbitrary: ys) (auto simp: bindR_eq_Inr)

lemma same_name_dicts:
  "is_dict x \<Longrightarrow> is_dict r \<Longrightarrow> same_name r x = Inr (py_eq (entry_name x) (entry_name r))"
  by (simp add: same_name_def py_get_name)

lemma same_name_Inr: "same_name r x = Inr b \<Longrightarrow> is_dict x \<and> is_dict r"
  by (auto simp: same_name_def bindR_eq_Inr dest: py_get_Inr_dict)

lemma replace_or_add_dicts:
  assumes "\<forall>x\<in>set list. is_dict x" "is_dict r"
  shows "replace_or_add_parameter list r =
     Inr (if \<exists>x\<in>set list. py_eq (entry_name x) (entry_name r)
          then map (\<lambda>x. if py_eq (entry_name x) (entry_name r) then r else x) list
          else list @ [r])"
proof -
  let ?l' = "map (\<lambda>x. if py_eq (entry_name x) (entry_name r) then r else x) list"
  have l': "\<forall>x\<in>set ?l'. is_dict x" using assms by auto
  have f: "filter_list (same_name r) ?l' = Inr (filter (\<lambda>x. py_eq (entry_name x) (entry_name r)) ?l')"
    by (rule filter_list_total) (use l' assms in \<open>auto simp: same_name_dicts\<close>)
  have g: "(filter (\<lambda>x. py_eq (entry_name x) (entry_name r)) ?l' \<noteq> []) \<longleftrightarrow> (\<exists>x\<in>set list. py_eq (entry_name x) (entry_name r))"
    by (auto simp: filter_empty_conv py_eq_norm_key)
  have h: "\<not> (\<exists>x\<in>set list. py_eq (entry_name x) (entry_name r)) \<Longrightarrow> ?l' = list"
    by (simp add: map_idI)
  have ne: "r \<noteq> PNone" using assms by auto
  show ?thesis
  proof (cases "list = []")
    case True
    then show ?thesis using ne by (simp add: replace_or_add_parameter_def any_py_def)
  next
    case False
    then have "?l' \<noteq> []" by simp
    then show ?thesis
      using ne g h assms
      by (simp add: replace_or_add_parameter_def replace_loop_dicts any_py_def f del: map_eq_conv)
  qed
qed

lemma replace_loop_Inr_length:
  "replace_loop list r = Inr l' \<Longrightarrow> length l' = length list"
  by (induction list arbitrary: l') (auto simp: bindR_eq_Inr split: if_splits)

lemma replace_loop_Inr_None:
  "replace_loop list r = Inr l' \<Longrightarrow> PNone \<in> set list \<Longrightarrow> PNone \<in> set l'"
  by (induction list arbitrary: l') (auto simp: bindR_eq_Inr split: if_splits)

lemma replace_loop_Inr_dict:
  "replace_loop list r = Inr l' \<Longrightarrow> x \<in> set list \<Longrightarrow> x \<noteq> PNone \<Longrightarrow> is_dict x \<and> is_dict r"
  by (induction list arbitrary: l') (auto simp: bindR_eq_Inr split: if_splits dest: py_get_Inr_dict)

lemma replace_or_add_Inr_cases:
  assumes "replace_or_add_parameter list r = Inr l'"
  shows "(r = PNone \<and> l' = list) \<or> (list = [] \<and> l' = [r]) \<or> ((\<forall>x\<in>set list. is_dict x) \<and> is_dict r)"
proof (cases "r = PNone")
  case True
  then show ?thesis using assms by (simp add: replace_or_add_parameter_def)
next
  case rn: False
  show ?thesis
  proof (cases "list = []")
    case True
    then show ?thesis using assms rn by (simp add: replace_or_add_parameter_def any_py_def)
  next
    case False
    from assms rn obtain l1 found where l1: "replace_loop list r = Inr l1"
      and f: "any_py l1 (same_name r) = Inr found"
      by (auto simp: replace_or_add_parameter_def bindR_eq_Inr)
    have "l1 \<noteq> []" using replace_loop_Inr_length[OF l1] False by auto
    then obtain ys where ys: "filter_list (same_name r) l1 = Inr ys"
      using f by (auto simp: any_py_def bindR_eq_Inr)
    have all1: "\<forall>x\<in>set l1. is_dict x \<and> is_dict r"
      using filter_list_Inr_all[OF ys] same_name_Inr by blast
    have "PNone \<notin> set list"
    proof
      assume "PNone \<in> set list"
      then have "PNone \<in> set l1" using replace_loop_Inr_None[OF l1] by simp
      then show False using all1 by auto
    qed
    then have "\<forall>x\<in>set list. is_dict x \<and> is_dict r"
      using replace_loop_Inr_dict[OF l1] by metis
    then show ?thesis using False by (cases list) auto
  qed
qed

lemma names_unique_replace_or_add:
  assumes "replace_or_add_parameter list r = Inr l'" "names_unique list"
  shows "names_unique l'"
proof -
  consider "r = PNone \<and> l' = list" | "list = [] \<and> l' = [r]" | "(\<forall>x\<in>set list. is_dict x) \<and> is_dict r"
    using replace_or_add_Inr_cases[OF assms(1)] by blast
  then show ?thesis
  proof cases
    case 1 then show ?thesis using assms by simp
  next
    case 2 then show ?thesis by (simp add: names_unique_def)
  next
    case 3
    let ?k = "\<lambda>x. norm_key (entry_name x)"
    have eq: "map ?k (map (\<lambda>x. if py_eq (entry_name x) (entry_name r) then r else x) list) = map ?k list"
      by (simp add: py_eq_norm_key)
    have l': "l' = (if \<exists>x\<in>set list. py_eq (entry_name x) (entry_name r)
          then map (\<lambda>x. if py_eq (entry_name x) (entry_name r) then r else x) list
          else list @ [r])"
      using assms(1) 3 by (simp add: replace_or_add_dicts)
    show ?thesis
    proof (cases "\<exists>x\<in>set list. py_eq (entry_name x) (entry_name r)")
      case True
      then have "map ?k l' = map ?k list" using l' eq by simp
      then show ?thesis using assms(2) by (simp add: names_unique_def)
    next
      case False
      then have "l' = list @ [r]" using l' by simp
      moreover have "?k r \<notin> set (map ?k list)" using False by (auto simp: py_eq_norm_key)
      ultimately show ?thesis using assms(2) by (simp add: names_unique_def)
    qed
  qed
qed

lemma names_unique_merge_parameters:
  "merge_parameters list xs = Inr l' \<Longrightarrow> names_unique list \<Longrightarrow> names_unique l'"
  by (induction xs arbitrary: list) (auto simp: bindR_eq_Inr dest: names_unique_replace_or_add)

lemma names_unique_merge_texture_data:
  "merge_texture_data list tds = Inr l' \<Longrightarrow> names_unique list \<Longrightarrow> names_unique l'"
  by (induction tds arbitrary: list) (auto simp: bindR_eq_Inr dest: names_unique_replace_or_add)

lemma names_unique_merge_override_parameters:
  "merge_override_parameters (t, s, v) ops = Inr (t', s', v') \<Longrightarrow>
   names_unique t \<Longrightarrow> names_unique s \<Longrightarrow> names_unique v \<Longrightarrow>
   names_unique t' \<and> names_unique s' \<and> names_unique v'"
proof (induction ops arbitrary: t s v)
  case Nil
  then show ?case by simp
next
  case (Cons a ops)
  from Cons.prems(1) obtain t1 s1 v1 where
    a: "merge_parameters t (op_Textures a) = Inr t1" "merge_parameters s (op_Scalars a) = Inr s1"
       "merge_parameters v (op_Vectors a) = Inr v1"
    and r: "merge_override_parameters (t1, s1, v1) ops = Inr (t', s', v')"
    by (auto simp: bindR_eq_Inr)
  show ?case
    using Cons.IH[OF r] a Cons.prems names_unique_merge_parameters by blast
qed


lemma hex_digits_nonempty: "hex_digits n \<noteq> []"
  by (subst hex_digits.simps) simp

lemma hex_digit_inj: "a < 16 \<Longrightarrow> b < 16 \<Longrightarrow> hex_digit a = hex_digit b \<Longrightarrow> a = b"
proof -
  assume a: "a < 16" and b: "b < 16" and e: "hex_digit a = hex_digit b"
  have d: "distinct ''0123456789abcdef''" by simp
  have l: "length ''0123456789abcdef'' = 16" by simp
  show ?thesis
    using nth_eq_iff_index_eq[OF d, of a b] a b e l unfolding hex_digit_def by simp
qed

lemma hex_digits_inj: "hex_digits n = hex_digits m \<Longrightarrow> n = m"
proof (induction n arbitrary: m rule: hex_digits.induct)
  case (1 n)
  show ?case
  proof (cases "n < 16")
    case True
    then have n1: "hex_digits n = [hex_digit n]" by (subst hex_digits.simps) simp
    have "m < 16"
    proof (rule ccontr)
      assume "\<not> m < 16"
      then have "hex_digits m = hex_digits (m div 16) @ [hex_digit (m mod 16)]"
        by (subst hex_digits.simps) simp
      then show False using n1 "1.prems" hex_digits_nonempty[of "m div 16"] by simp
    qed
    then have "hex_digits m = [hex_digit m]" by (subst hex_digits.simps) simp
    then show ?thesis using n1 "1.prems" True \<open>m < 16\<close> hex_digit_inj by simp
  next
    case False
    then have n1: "hex_digits n = hex_digits (n div 16) @ [hex_digit (n mod 16)]"
      by (subst hex_digits.simps) simp
    have m16: "\<not> m < 16"
    proof
      assume "m < 16"
      then have "hex_digits m = [hex_digit m]" by (subst hex_digits.simps) simp
      then show False using n1 "1.prems" hex_digits_nonempty[of "n div 16"] by simp
    qed
    then have m1: "hex_digits m = hex_digits (m div 16) @ [hex_digit (m mod 16)]"
      by (subst hex_digits.simps) simp
    from n1 m1 "1.prems" have a: "hex_digits (n div 16) = hex_digits (m div 16)"
      and b: "hex_digit (n mod 16) = hex_digit (m mod 16)" by auto
    have "n div 16 = m div 16" using "1.IH"[OF False a] .
    moreover have "n mod 16 = m mod 16" using hex_digit_inj[OF _ _ b] by simp
    ultimately show ?thesis by (metis div_mult_mod_eq)
  qed
qed

lemma hash_code_eq: "hash_code n = hex_digits (nat \<bar>n\<bar>)"
  by (simp add: hash_code_def py_hex_def)

lemma hash_code_inj: "hash_code a = hash_code b \<longleftrightarrow> \<bar>a\<bar> = \<bar>b\<bar>"
  using hex_digits_inj[of "nat \<bar>a\<bar>" "nat \<bar>b\<bar>"] by (auto simp: hash_code_eq)

lemma foldl_add_sum: "foldl (\<lambda>h x. h + f x) (a::int) xs = a + sum_list (map f xs)"
  by (induction xs arbitrary: a) auto

lemma additional_hash_sum:
  "additional_hash_of md meta =
     sum_list (map td_Hash (meta_TextureData meta)) +
     sum_list (map op_Hash (override_parameters_for meta (md_Name md)))"
  by (simp add: additional_hash_of_def foldl_add_sum)



subsection \<open>Totality of the merge on well-formed layers\<close>

lemma replace_or_add_dict_or_None:
  assumes "list_all is_dict list" "dict_or_None r"
  shows "\<exists>l'. replace_or_add_parameter list r = Inr l' \<and> list_all is_dict l'"
proof (cases "r = PNone")
  case True
  then show ?thesis using assms by (simp add: replace_or_add_parameter_def)
next
  case False
  then have r: "is_dict r" using assms(2) by (simp add: dict_or_None_def)
  have a: "\<forall>x\<in>set list. is_dict x" using assms(1) by (simp add: list_all_iff)
  show ?thesis
    using a r by (auto simp: replace_or_add_dicts[OF a r] list_all_iff)
qed

lemma merge_parameters_total:
  "list_all is_dict list \<Longrightarrow> list_all dict_or_None xs \<Longrightarrow>
   \<exists>l'. merge_parameters list xs = Inr l' \<and> list_all is_dict l'"
proof (induction xs arbitrary: list)
  case Nil
  then show ?case by simp
next
  case (Cons x xs)
  then obtain l1 where l1: "replace_or_add_parameter list x = Inr l1" "list_all is_dict l1"
    using replace_or_add_dict_or_None[of list x] by auto
  then show ?case using Cons.IH[of l1] Cons.prems by simp
qed

lemma merge_texture_data_total:
  "list_all is_dict list \<Longrightarrow>
   list_all (\<lambda>td. dict_or_None (td_Diffuse td) \<and> dict_or_None (td_Normal td) \<and>
                   dict_or_None (td_Specular td)) tds \<Longrightarrow>
   \<exists>l'. merge_texture_data list tds = Inr l' \<and> list_all is_dict l'"
proof (induction tds arbitrary: list)
  case Nil
  then show ?case by simp
next
  case (Cons td tds)
  obtain l1 where l1: "replace_or_add_parameter list (td_Diffuse td) = Inr l1" "list_all is_dict l1"
    using replace_or_add_dict_or_None[of list "td_Diffuse td"] Cons.prems by auto
  obtain l2 where l2: "replace_or_add_parameter l1 (td_Normal td) = Inr l2" "list_all is_dict l2"
    using replace_or_add_dict_or_None[of l1 "td_Normal td"] Cons.prems l1 by auto
  obtain l3 where l3: "replace_or_add_parameter l2 (td_Specular td) = Inr l3" "list_all is_dict l3"
    using replace_or_add_dict_or_None[of l2 "td_Specular td"] Cons.prems l2 by auto
  show ?case using Cons.IH[of l3] Cons.prems l1 l2 l3 by simp
qed

lemma merge_override_parameters_total:
  "list_all is_dict t \<Longrightarrow> list_all is_dict s \<Longrightarrow> list_all is_dict v \<Longrightarrow>
   list_all (\<lambda>p. list_all dict_or_None (op_Textures p) \<and> list_all dict_or_None (op_Scalars p) \<and>
                  list_all dict_or_None (op_Vectors p)) ops \<Longrightarrow>
   \<exists>r. merge_override_parameters (t, s, v) ops = Inr r"
proof (induction ops arbitrary: t s v)
  case Nil
  then show ?case by simp
next
  case (Cons p ops)
  obtain t1 where t1: "merge_parameters t (op_Textures p) = Inr t1" "list_all is_dict t1"
    using merge_parameters_total[of t "op_Textures p"] Cons.prems by auto
  obtain s1 where s1: "merge_parameters s (op_Scalars p) = Inr s1" "list_all is_dict s1"
    using merge_parameters_total[of s "op_Scalars p"] Cons.prems by auto
  obtain v1 where v1: "merge_parameters v (op_Vectors p) = Inr v1" "list_all is_dict v1"
    using merge_parameters_total[of v "op_Vectors p"] Cons.prems by auto
  show ?case using Cons.IH[of t1 s1 v1] Cons.prems t1 s1 v1 by simp
qed

lemma merge_overrides_total:
  assumes "well_formed_layers md meta"
  shows "\<exists>md'. merge_overrides md meta = Inr md'"
proof -
  obtain t1 where t1: "merge_texture_data (md_Textures md) (meta_TextureData meta) = Inr t1"
      "list_all is_dict t1"
    using merge_texture_data_total[of "md_Textures md" "meta_TextureData meta"] assms
    by (auto simp: well_formed_layers_def)
  obtain r where r: "merge_override_parameters (t1, md_Scalars md, md_Vectors md)
       (override_parameters_for meta (md_Name md)) = Inr r"
    using merge_override_parameters_total[of t1 "md_Scalars md" "md_Vectors md"
        "override_parameters_for meta (md_Name md)"] assms t1
    by (auto simp: well_formed_layers_def)
  show ?thesis using t1 r by (cases r) (simp add: merge_overrides_def)
qed

lemma merge_overrides_unique:
  assumes m: "merge_overrides md meta = Inr md'"
    and u: "names_unique (md_Textures md)" "names_unique (md_Scalars md)"
      "names_unique (md_Vectors md)" "names_unique (md_Switches md)"
      "names_unique (md_ComponentMasks md)"
  shows "names_unique (md_Textures md') \<and> names_unique (md_Scalars md') \<and>
         names_unique (md_Vectors md') \<and> names_unique (md_Switches md') \<and>
         names_unique (md_ComponentMasks md')"
proof -
  from m obtain t1 t2 s2 v2 where
    t1: "merge_texture_data (md_Textures md) (meta_TextureData meta) = Inr t1"
    and r: "merge_override_parameters (t1, md_Scalars md, md_Vectors md)
       (override_parameters_for meta (md_Name md)) = Inr (t2, s2, v2)"
    and md': "md' = md\<lparr>md_Textures := t2, md_Scalars := s2, md_Vectors := v2\<rparr>"
    by (auto simp: merge_overrides_def bindR_eq_Inr)
  have "names_unique t1" using names_unique_merge_texture_data[OF t1 u(1)] .
  then have "names_unique t2 \<and> names_unique s2 \<and> names_unique v2"
    using names_unique_merge_override_parameters[OF r] u by simp
  then show ?thesis using md' u by simp
qed

lemma spec_replace_first_unique:
  "names_unique list \<Longrightarrow>
   spec_replace_first_or_append list r =
     (if \<exists>x\<in>set list. py_eq (entry_name x) (entry_name r)
      then map (\<lambda>x. if py_eq (entry_name x) (entry_name r) then r else x) list
      else list @ [r])"
proof (induction list)
  case Nil
  then show ?case by simp
next
  case (Cons a list)
  have u: "names_unique list" using Cons.prems by (simp add: names_unique_def)
  show ?case
  proof (cases "py_eq (entry_name a) (entry_name r)")
    case True
    then have "\<forall>x\<in>set list. \<not> py_eq (entry_name x) (entry_name r)"
      using Cons.prems by (force simp: names_unique_def py_eq_norm_key image_iff)
    then have "map (\<lambda>x. if py_eq (entry_name x) (entry_name r) then r else x) list = list"
      by (simp add: map_idI)
    then show ?thesis using True by simp
  next
    case False
    then show ?thesis using Cons.IH[OF u] by simp
  qed
qed

subsection \<open>Fingerprints and display names\<close>

lemma sum_list_take_drop:
  "sum_list (map f (take i xs)) + sum_list (map f (drop i xs)) = (sum_list (map f xs) :: int)"
  by (metis append_take_drop_id map_append sum_list_append)

lemma additional_hash_add_texture_data:
  "additional_hash_of md (add_texture_data i td meta) = additional_hash_of md meta + td_Hash td"
  using sum_list_take_drop[of td_Hash i "meta_TextureData meta"]
  by (simp add: additional_hash_sum add_texture_data_def override_parameters_for_def)

lemma additional_hash_add_override_parameter:
  assumes "op_MaterialNameToAlter p = md_Name md"
  shows "additional_hash_of md (add_override_parameter i p meta) = additional_hash_of md meta + op_Hash p"
proof -
  let ?P = "\<lambda>q. op_MaterialNameToAlter q = md_Name md"
  let ?xs = "meta_OverrideParameters meta"
  have "filter ?P (take i ?xs @ p # drop i ?xs) = filter ?P (take i ?xs) @ p # filter ?P (drop i ?xs)"
    using assms by simp
  moreover have "filter ?P ?xs = filter ?P (take i ?xs) @ filter ?P (drop i ?xs)"
    by (metis append_take_drop_id filter_append)
  ultimately show ?thesis
    by (simp add: additional_hash_sum add_override_parameter_def override_parameters_for_def)
qed

lemma resolved_hash_extra:
  assumes "additional_hash_of md meta' = additional_hash_of md meta + h"
  shows "resolved_hash md meta' \<noteq> resolved_hash md meta \<longleftrightarrow> h \<noteq> 0"
  using assms by (auto simp: resolved_hash_def Let_def)

lemma resolved_name_extra:
  assumes "additional_hash_of md meta' = additional_hash_of md meta + h"
  shows "resolved_name md meta' \<noteq> resolved_name md meta \<longleftrightarrow>
         h \<noteq> 0 \<and> h \<noteq> - 2 * additional_hash_of md meta"
proof -
  let ?a = "additional_hash_of md meta"
  have abs: "\<bar>?a + h\<bar> = \<bar>?a\<bar> \<longleftrightarrow> h = 0 \<or> h = - 2 * ?a" by auto
  show ?thesis
    using assms abs by (auto simp: resolved_name_def Let_def hash_code_inj)
qed

section \<open>Hashes and merging\<close>

text \<open>
  C10. The suffix token is the hexadecimal form of the absolute value of the accumulated
  override hash: \<open>hex(|n|)\<close> is \<open>0x\<close> followed by \<open>hash_code n\<close>. Hence two imports of one
  material whose override hashes sum to \<open>n\<close> and to \<open>-n\<close>, \<open>n\<close> not zero, get the same
  display name and token, yet different fingerprints.
\<close>

theorem hash_code_sign_blind:
  assumes "n \<noteq> 0"
    and "additional_hash_of md meta = n"
    and "additional_hash_of md meta' = - n"
  shows "py_hex \<bar>n\<bar> = ''0x'' @ hash_code n
       \<and> hash_code (- n) = hash_code n
       \<and> resolved_name md meta = md_Name md @ ''_'' @ hash_code n
       \<and> resolved_name md meta' = md_Name md @ ''_'' @ hash_code n
       \<and> resolved_hash md meta \<noteq> resolved_hash md meta'"
  using assms by (simp add: resolved_name_def resolved_hash_def hash_code_eq py_hex_def)

theorem hash_code_sign_blind_witness:
  "(255::int) \<noteq> 0
   \<and> additional_hash_of sample_material (sample_meta [sample_texture_data 255] []) = 255
   \<and> additional_hash_of sample_material (sample_meta [sample_texture_data (- 255)] []) = - 255
   \<and> hash_code 255 = ''ff''
   \<and> resolved_name sample_material (sample_meta [sample_texture_data 255] []) = ''M_Body_ff''
   \<and> resolved_name sample_material (sample_meta [sample_texture_data (- 255)] []) = ''M_Body_ff''
   \<and> resolved_hash sample_material (sample_meta [sample_texture_data 255] []) = 1255
   \<and> resolved_hash sample_material (sample_meta [sample_texture_data (- 255)] []) = 745"
proof -
  have a: "additional_hash_of sample_material (sample_meta [sample_texture_data 255] []) = 255"
    by (simp add: additional_hash_of_def sample_meta_def sample_texture_data_def
        override_parameters_for_def)
  have b: "additional_hash_of sample_material (sample_meta [sample_texture_data (- 255)] []) = - 255"
    by (simp add: additional_hash_of_def sample_meta_def sample_texture_data_def
        override_parameters_for_def)
  have h: "hash_code 255 = ''ff''" by code_simp
  have n: "md_Name sample_material = ''M_Body''" by (simp add: sample_material_def)
  have r1: "resolved_hash sample_material (sample_meta [sample_texture_data 255] []) = 1255"
    using a by (simp add: resolved_hash_def sample_material_def)
  have r2: "resolved_hash sample_material (sample_meta [sample_texture_data (- 255)] []) = 745"
    using b by (simp add: resolved_hash_def sample_material_def)
  show ?thesis
    using hash_code_sign_blind[of 255 sample_material "sample_meta [sample_texture_data 255] []"
        "sample_meta [sample_texture_data (- 255)] []"] a b h n r1 r2
    by simp
qed

text \<open>
  C3, as stated, fails: on a sequence that holds the name twice the loop overwrites both
  entries, not the first one only.
\<close>

theorem replace_or_add_parameter_overwrites_every_match:
  "replace_or_add_parameter
     [texture_entry ''Diffuse'' ''A'', texture_entry ''Diffuse'' ''C''] (texture_entry ''Diffuse'' ''B'')
     = Inr [texture_entry ''Diffuse'' ''B'', texture_entry ''Diffuse'' ''B'']
   \<and> spec_replace_first_or_append
     [texture_entry ''Diffuse'' ''A'', texture_entry ''Diffuse'' ''C''] (texture_entry ''Diffuse'' ''B'')
     = [texture_entry ''Diffuse'' ''B'', texture_entry ''Diffuse'' ''C'']
   \<and> texture_entry ''Diffuse'' ''B'' \<noteq> texture_entry ''Diffuse'' ''C''"
  by (simp add: replace_or_add_parameter_def any_py_def same_name_def texture_entry_def
      py_eq_def entry_name_def)

text \<open>
  C3, amended. Merging one override entry (a dict) into a kind-sequence of dicts
  overwrites every entry with an equal name and, when there is none, appends the
  entry at the end. When the names of the sequence are unique this is the replacement of
  the first entry with an equal name, so base \<open>[Diffuse = A]\<close> merged with \<open>Diffuse = B\<close>
  gives exactly \<open>[Diffuse = B]\<close>.
\<close>

theorem replace_or_add_parameter_merge_step:
  assumes "list_all is_dict list" and "is_dict replace_item"
  shows "replace_or_add_parameter list replace_item =
           Inr (if \<exists>x\<in>set list. py_eq (entry_name x) (entry_name replace_item)
                then map (\<lambda>x. if py_eq (entry_name x) (entry_name replace_item)
                               then replace_item else x) list
                else list @ [replace_item])
       \<and> (names_unique list \<longrightarrow>
            replace_or_add_parameter list replace_item =
              Inr (spec_replace_first_or_append list replace_item))"
proof -
  have a: "\<forall>x\<in>set list. is_dict x" using assms(1) by (simp add: list_all_iff)
  show ?thesis
    using replace_or_add_dicts[OF a assms(2)] spec_replace_first_unique[of list replace_item]
    by simp
qed

theorem replace_or_add_parameter_merge_step_witness:
  "list_all is_dict [texture_entry ''Diffuse'' ''A'']
   \<and> is_dict (texture_entry ''Diffuse'' ''B'')
   \<and> names_unique [texture_entry ''Diffuse'' ''A'']
   \<and> replace_or_add_parameter [texture_entry ''Diffuse'' ''A''] (texture_entry ''Diffuse'' ''B'')
       = Inr [texture_entry ''Diffuse'' ''B'']"
proof -
  have d: "list_all is_dict [texture_entry ''Diffuse'' ''A'']" "is_dict (texture_entry ''Diffuse'' ''B'')"
    by (simp_all add: texture_entry_def)
  have u: "names_unique [texture_entry ''Diffuse'' ''A'']" by (simp add: names_unique_def)
  have s: "spec_replace_first_or_append [texture_entry ''Diffuse'' ''A''] (texture_entry ''Diffuse'' ''B'')
      = [texture_entry ''Diffuse'' ''B'']"
    by (simp add: texture_entry_def entry_name_def py_eq_def)
  have "replace_or_add_parameter [texture_entry ''Diffuse'' ''A''] (texture_entry ''Diffuse'' ''B'')
      = Inr (spec_replace_first_or_append [texture_entry ''Diffuse'' ''A''] (texture_entry ''Diffuse'' ''B''))"
    using replace_or_add_parameter_merge_step[OF d] u by blast
  then have r: "replace_or_add_parameter [texture_entry ''Diffuse'' ''A''] (texture_entry ''Diffuse'' ''B'')
      = Inr [texture_entry ''Diffuse'' ''B'']"
    by (simp only: s)
  show ?thesis using d u r by blast
qed

text \<open>
  C9. When the names are unique within each of the five kind-sequences of the base
  material, they are unique again in each sequence after the merge of all override layers,
  whatever the layers are; and on well-formed layers the merge does return.
\<close>

theorem merge_overrides_names_unique:
  assumes "names_unique (md_Textures md)" and "names_unique (md_Scalars md)"
    and "names_unique (md_Vectors md)" and "names_unique (md_Switches md)"
    and "names_unique (md_ComponentMasks md)"
  shows "(\<forall>md'. merge_overrides md meta = Inr md' \<longrightarrow>
            names_unique (md_Textures md') \<and> names_unique (md_Scalars md') \<and>
            names_unique (md_Vectors md') \<and> names_unique (md_Switches md') \<and>
            names_unique (md_ComponentMasks md'))
       \<and> (well_formed_layers md meta \<longrightarrow> (\<exists>md'. merge_overrides md meta = Inr md'))"
  using merge_overrides_unique[OF _ assms] merge_overrides_total by blast

theorem merge_overrides_names_unique_witness:
  "names_unique (md_Textures sample_material)
   \<and> well_formed_layers sample_material (sample_meta [sample_texture_data 5] [sample_override 7])
   \<and> merge_overrides sample_material (sample_meta [sample_texture_data 5] [sample_override 7])
       = Inr (sample_material\<lparr>md_Textures := [texture_entry ''Diffuse'' ''/Game/T/B.B''],
                md_Scalars := [scalar_entry ''RoughnessMin'' (PFloat 0)], md_Vectors := []\<rparr>)
   \<and> names_unique [texture_entry ''Diffuse'' ''/Game/T/B.B'']
   \<and> names_unique [scalar_entry ''RoughnessMin'' (PFloat 0)]"
proof -
  let ?meta = "sample_meta [sample_texture_data 5] [sample_override 7]"
  have u: "names_unique (md_Textures sample_material)" "names_unique (md_Scalars sample_material)"
    "names_unique (md_Vectors sample_material)" "names_unique (md_Switches sample_material)"
    "names_unique (md_ComponentMasks sample_material)"
    by (simp_all add: names_unique_def sample_material_def)
  have w: "well_formed_layers sample_material ?meta"
    by (simp add: well_formed_layers_def sample_material_def sample_meta_def sample_texture_data_def
        sample_override_def override_parameters_for_def texture_entry_def scalar_entry_def
        dict_or_None_def)
  have m: "merge_overrides sample_material ?meta
       = Inr (sample_material\<lparr>md_Textures := [texture_entry ''Diffuse'' ''/Game/T/B.B''],
                md_Scalars := [scalar_entry ''RoughnessMin'' (PFloat 0)], md_Vectors := []\<rparr>)"
    by (simp add: merge_overrides_def sample_material_def sample_meta_def sample_texture_data_def
        sample_override_def override_parameters_for_def texture_entry_def scalar_entry_def
        replace_or_add_parameter_def any_py_def same_name_def py_eq_def)
  show ?thesis
    using merge_overrides_names_unique[OF u, of ?meta] w m u(1) by simp
qed

text \<open>
  C4, as stated, fails: with one texture-data layer of hash 5, a further layer of hash -10
  changes the fingerprint but leaves the display name, and so the token, as it was.
\<close>

theorem extra_layer_same_token:
  "resolved_name sample_material (sample_meta [sample_texture_data 5] []) = ''M_Body_5''
   \<and> resolved_name sample_material
        (add_texture_data 1 (sample_texture_data (- 10)) (sample_meta [sample_texture_data 5] []))
       = ''M_Body_5''
   \<and> hash_code (5 + (- 10)) = hash_code 5"
  by code_simp

text \<open>
  C4, amended. Two imports of one material that differ in one more applicable override
  layer (a texture-data entry, or an override-parameter set whose target is the
  material's name) of hash \<open>h\<close> have different fingerprints exactly when \<open>h\<close> is not zero,
  and different display names exactly when moreover \<open>h\<close> is not minus twice the
  accumulated hash of the other layers.
\<close>

theorem extra_layer_fingerprint:
  assumes "meta' = add_texture_data i td meta \<and> h = td_Hash td
         \<or> meta' = add_override_parameter i p meta \<and> h = op_Hash p
             \<and> op_MaterialNameToAlter p = md_Name md"
  shows "(resolved_hash md meta' \<noteq> resolved_hash md meta \<longleftrightarrow> h \<noteq> 0)
       \<and> (resolved_name md meta' \<noteq> resolved_name md meta \<longleftrightarrow>
            h \<noteq> 0 \<and> h \<noteq> - 2 * additional_hash_of md meta)"
proof -
  have "additional_hash_of md meta' = additional_hash_of md meta + h"
    using assms additional_hash_add_texture_data additional_hash_add_override_parameter by auto
  then show ?thesis using resolved_hash_extra resolved_name_extra by blast
qed

theorem extra_layer_fingerprint_witness:
  "resolved_hash sample_material (add_texture_data 0 (sample_texture_data 3) (sample_meta [] []))
     \<noteq> resolved_hash sample_material (sample_meta [] [])
   \<and> resolved_name sample_material (add_texture_data 0 (sample_texture_data 3) (sample_meta [] []))
     \<noteq> resolved_name sample_material (sample_meta [] [])"
proof -
  have a: "additional_hash_of sample_material (sample_meta [] []) = 0"
    by (simp add: additional_hash_of_def sample_meta_def override_parameters_for_def)
  have h: "td_Hash (sample_texture_data 3) = 3" by (simp add: sample_texture_data_def)
  show ?thesis
    using extra_layer_fingerprint[of "add_texture_data 0 (sample_texture_data 3) (sample_meta [] [])"
        0 "sample_texture_data 3" "sample_meta [] []" 3 _ sample_material] a h
    by simp
qed

section \<open>The graph\<close>

subsection \<open>Resolution of the parameters\<close>

lemma bindE_Inr: "m s = (Inr x, s') \<Longrightarrow> bindE m f s = f x s'"
  by (simp add: bindE_def)

lemma bindE_Inl: "m s = (Inl e, s') \<Longrightarrow> bindE m f s = (Inl e, s')"
  by (simp add: bindE_def)

lemma setup_params_fold:
  "setup_params env md mappings target add s =
     fold (resolve env mappings target add) (params_in_order md) s"
  by (simp add: setup_params_def params_in_order_def Let_def fold_map comp_def resolve_def
      texture_param_def scalar_param_def vector_param_def component_mask_param_def switch_param_def)

text \<open>
  When the resolution of one parameter raises, what its body did up to there stays,
  the exception is printed, and \<open>setup_params\<close> goes on with every parameter that follows
  (of the same kind and of the later kinds); \<open>setup_params\<close> itself returns normally.
\<close>

lemma setup_params_resumes:
  assumes "params_in_order md = before @ (k, p) # after"
    and "param_body env k p mappings target add (fold (resolve env mappings target add) before s) = (Inl e, s')"
  shows "resolve env mappings target add (k, p) (fold (resolve env mappings target add) before s)
           = s'\<lparr>printed := printed s' @ [e]\<rparr>
       \<and> setup_params env md mappings target add s
           = fold (resolve env mappings target add) after (s'\<lparr>printed := printed s' @ [e]\<rparr>)
       \<and> modify (setup_params env md mappings target add) s
           = (Inr (), fold (resolve env mappings target add) after (s'\<lparr>printed := printed s' @ [e]\<rparr>))"
proof -
  have r: "resolve env mappings target add (k, p) (fold (resolve env mappings target add) before s)
      = s'\<lparr>printed := printed s' @ [e]\<rparr>"
    using assms(2) by (simp add: resolve_def try_except_def)
  then show ?thesis
    using assms(1) by (simp add: setup_params_fold modify_def)
qed

lemma setup_params_resumes_example:
  "params_in_order toon_scalars
     = [] @ (Scalar, scalar_entry ''PBR_Shading'' PNone)
          # [(Scalar, scalar_entry ''ShadedColorDarkening'' (PFloat (1 / 2)))]
   \<and> param_body sample_env Scalar (scalar_entry ''PBR_Shading'' PNone) toon_mappings 0 True toon_state
       = (Inl TypeError, toon_state)
   \<and> printed (setup_params sample_env toon_scalars toon_mappings 0 True toon_state) = [TypeError]
   \<and> map node_inputs (nodes (setup_params sample_env toon_scalars toon_mappings 0 True toon_state))
       = [[(''ShadedColorDarkening'', Some (PFloat (1 / 2))), (''Use PBR Shading'', None)]]"
proof -
  let ?after = "[(Scalar, scalar_entry ''ShadedColorDarkening'' (PFloat (1 / 2)))]"
  have a: "params_in_order toon_scalars
     = [] @ (Scalar, scalar_entry ''PBR_Shading'' PNone) # ?after"
    by (simp add: params_in_order_def toon_scalars_def)
  have b: "param_body sample_env Scalar (scalar_entry ''PBR_Shading'' PNone) toon_mappings 0 True
             (fold (resolve sample_env toon_mappings 0 True) [] toon_state)
       = (Inl TypeError, toon_state)"
    by code_simp
  have c: "printed (fold (resolve sample_env toon_mappings 0 True) ?after
              (toon_state\<lparr>printed := printed toon_state @ [TypeError]\<rparr>)) = [TypeError]"
    by code_simp
  have d: "map node_inputs (nodes (fold (resolve sample_env toon_mappings 0 True) ?after
              (toon_state\<lparr>printed := printed toon_state @ [TypeError]\<rparr>)))
       = [[(''ShadedColorDarkening'', Some (PFloat (1 / 2))), (''Use PBR Shading'', None)]]"
    by code_simp
  have e: "setup_params sample_env toon_scalars toon_mappings 0 True toon_state
      = fold (resolve sample_env toon_mappings 0 True) ?after
              (toon_state\<lparr>printed := printed toon_state @ [TypeError]\<rparr>)"
    using setup_params_resumes[OF a b] by blast
  have b': "param_body sample_env Scalar (scalar_entry ''PBR_Shading'' PNone) toon_mappings 0 True toon_state
       = (Inl TypeError, toon_state)"
    using b by simp
  show ?thesis
    using a b' c d by (simp only: e simp_thms)
qed

text \<open>
  C7 fails once the parameter that raised is the \<open>Diffuse\<close> texture. With the image file on
  disk the import of \<open>glow_material\<close> completes. With the file missing, \<open>import_image\<close>
  returns \<open>None\<close>, the texture raises \<open>AttributeError\<close>, which is caught and printed, and
  the switch that follows is still resolved; but the socket \<open>Diffuse\<close> has no link then, and
  the fix-up for \<open>Modulate Emissive with Diffuse\<close> reads \<open>links[0]\<close> of it outside any
  \<open>try\<close>: the construction of the graph, and with it \<open>import_material\<close>, ends in
  \<open>IndexError\<close>.
\<close>

theorem failed_diffuse_texture_aborts_import:
  "isl (import_material (glow_env True) sample_task sample_slot glow_material (sample_meta [] [])) = False
   \<and> fst (construct_graph (glow_env False) ''M_Glow'' glow_material (sample_meta [] []) empty_build)
       = Inl IndexError
   \<and> printed (snd (construct_graph (glow_env False) ''M_Glow'' glow_material (sample_meta [] []) empty_build))
       = [AttributeError]
   \<and> map bl_idname (nodes (snd (construct_graph (glow_env False) ''M_Glow'' glow_material
         (sample_meta [] []) empty_build)))
       = [''ShaderNodeOutputMaterial'', ''ShaderNodeGroup'', ''ShaderNodeTexImage'', ''ShaderNodeGroup'']
   \<and> isl (import_material (glow_env False) sample_task sample_slot glow_material (sample_meta [] []))
   \<and> projl (import_material (glow_env False) sample_task sample_slot glow_material (sample_meta [] []))
       = IndexError"
  by code_simp

text \<open>
  C8 fails on textures: resolving a texture whose name has no rule in the gradient table,
  with the exposure of unmapped parameters off, leaves one more node in the tree.
\<close>

theorem texture_param_unmapped_adds_node:
  "find_mapping (mc_textures gradient_mappings) (PStr ''Normals'') = None
   \<and> length (nodes gradient_state) = 1
   \<and> map bl_idname (nodes (texture_param sample_env (texture_entry ''Normals'' ''/Game/T/N.N'')
        gradient_mappings 0 False gradient_state))
       = [''ShaderNodeGroup'', ''ShaderNodeTexImage'']
   \<and> printed (texture_param sample_env (texture_entry ''Normals'' ''/Game/T/N.N'')
        gradient_mappings 0 False gradient_state) = []"
  by code_simp

text \<open>The other four kinds do drop such a parameter: the state is left as it was.\<close>

lemma scalar_param_unmapped_dropped:
  "find_mapping (mc_scalars m) (entry_name (PDict d)) = None \<Longrightarrow> scalar_param env (PDict d) m t False s = s"
  by (simp add: scalar_param_def try_except_def scalar_param_body_def bindE_def lift_def
      entry_name_def guard_def ret_def)

lemma vector_param_unmapped_dropped:
  "find_mapping (mc_vectors m) (entry_name (PDict d)) = None \<Longrightarrow> vector_param env (PDict d) m t False s = s"
  by (simp add: vector_param_def try_except_def vector_param_body_def bindE_def lift_def
      entry_name_def guard_def ret_def)

lemma component_mask_param_unmapped_dropped:
  "find_mapping (mc_component_masks m) (entry_name (PDict d)) = None \<Longrightarrow>
   component_mask_param env (PDict d) m t False s = s"
  by (simp add: component_mask_param_def try_except_def component_mask_param_body_def bindE_def
      lift_def entry_name_def guard_def ret_def)

lemma switch_param_unmapped_dropped:
  "find_mapping (mc_switches m) (entry_name (PDict d)) = None \<Longrightarrow> switch_param env (PDict d) m t False s = s"
  by (simp add: switch_param_def try_except_def switch_param_body_def bindE_def lift_def
      entry_name_def guard_def ret_def)

subsection \<open>Replacing the root node\<close>

lemma find_app:
  "find P (xs @ ys) = (case find P xs of None \<Rightarrow> find P ys | Some x \<Rightarrow> Some x)"
  by (induction xs) auto

lemma find_fresh: "ids_below s \<Longrightarrow> find (\<lambda>x. node_id x = next_id s) (nodes s) = None"
  by (auto simp: ids_below_def list_all_iff find_None_iff)

lemma has_node_find: "has_node s n \<Longrightarrow> \<exists>x. find (\<lambda>x. node_id x = n) (nodes s) = Some x"
  by (cases "find (\<lambda>x. node_id x = n) (nodes s)") (auto simp: has_node_def list_ex_iff find_None_iff)

lemma find_filter_fresh:
  "ids_below s \<Longrightarrow> find (\<lambda>x. node_id x = next_id s) (filter P (nodes s)) = None"
  by (auto simp: ids_below_def list_all_iff find_None_iff)

lemma map_fresh_id:
  "ids_below s \<Longrightarrow> map (\<lambda>x. if node_id x = next_id s then f x else x) (filter P (nodes s)) = filter P (nodes s)"
  by (rule map_idI) (auto simp: ids_below_def list_all_iff)

lemma replace_shader_node_eq:
  assumes "ids_below s" "has_node s sn"
  shows "replace_shader_node env sn name s =
    (Inr (next_id s),
     s\<lparr>nodes := filter (\<lambda>x. node_id x \<noteq> sn) (nodes s) @
          [case map_of (node_groups env) name of
             None \<Rightarrow> (new_node (next_id s) ''ShaderNodeGroup'')\<lparr>node_tree := None, node_inputs := [], node_outputs := []\<rparr>
           | Some t \<Rightarrow> (new_node (next_id s) ''ShaderNodeGroup'')\<lparr>node_tree := Some name,
                node_inputs := map (\<lambda>i. (i, None)) (t_inputs t),
                node_outputs := replicate (t_outputs t) None\<rparr>],
        links := filter (\<lambda>l. fst (fst l) \<noteq> sn \<and> fst (snd l) \<noteq> sn) (links s),
        next_id := Suc (next_id s)\<rparr>)"
proof -
  obtain x where x: "find (\<lambda>x. node_id x = sn) (nodes s) = Some x"
    using has_node_find[OF assms(2)] by blast
  have nid: "node_id (new_node (next_id s) ''ShaderNodeGroup'') = next_id s"
    by (simp add: new_node_def)
  show ?thesis
    using x find_filter_fresh[OF assms(1)] map_fresh_id[OF assms(1)] nid
    by (simp add: replace_shader_node_def nodes_remove_def get_node_def bindE_def modify_def
        nodes_new_def set_node_tree_def update_node_def ret_def find_app split: option.splits)
qed


lemma replace_shader_node_props:
  assumes "ids_below s" "has_node s sn"
  shows "\<exists>s'. replace_shader_node env sn name s = (Inr (next_id s), s')
     \<and> ids_below s' \<and> has_node s' (next_id s)
     \<and> tree_of s' (next_id s) = group_ref env name
     \<and> blend_method s' = blend_method s
     \<and> show_transparent_back s' = show_transparent_back s
     \<and> use_sss_translucency s' = use_sss_translucency s
     \<and> (\<forall>y\<in>set (nodes s'). node_tree y = group_ref env name \<or> y \<in> set (nodes s))"
proof -
  have a: "ids_below s \<Longrightarrow> list_all (\<lambda>x. node_id x < Suc (next_id s)) (filter P (nodes s))" for P
    by (auto simp: ids_below_def list_all_iff)
  show ?thesis
    unfolding replace_shader_node_eq[OF assms]
    using assms(1) a find_filter_fresh[OF assms(1)]
    by (auto simp: ids_below_def has_node_def tree_of_def group_ref_def new_node_def find_app
        list_all_iff split: option.splits)
qed

lemma plain_step:
  assumes "ids_below s" "has_node s sn" "name \<noteq> ''FP Foliage''"
  shows "\<exists>sn' s'. (if b then bindE (replace_shader_node env sn name) (\<lambda>n. ret (n, m'))
                       else ret (sn, m)) s = (Inr (sn', if b then m' else m), s')
     \<and> ids_below s' \<and> has_node s' sn'
     \<and> tree_of s' sn' = (if b then group_ref env name else tree_of s sn)
     \<and> blend_method s' = blend_method s
     \<and> show_transparent_back s' = show_transparent_back s
     \<and> use_sss_translucency s' = use_sss_translucency s
     \<and> (\<forall>y\<in>set (nodes s'). node_tree y = Some ''FP Foliage'' \<longrightarrow> y \<in> set (nodes s))"
proof (cases b)
  case True
  obtain s' where s': "replace_shader_node env sn name s = (Inr (next_id s), s')"
    "ids_below s'" "has_node s' (next_id s)" "tree_of s' (next_id s) = group_ref env name"
    "blend_method s' = blend_method s" "show_transparent_back s' = show_transparent_back s"
    "use_sss_translucency s' = use_sss_translucency s"
    "\<forall>y\<in>set (nodes s'). node_tree y = group_ref env name \<or> y \<in> set (nodes s)"
    using replace_shader_node_props[OF assms(1,2), of env name] by blast
  have g: "group_ref env name \<noteq> Some ''FP Foliage''"
    using assms(3) by (auto simp: group_ref_def split: option.splits)
  have "\<forall>y\<in>set (nodes s'). node_tree y = Some ''FP Foliage'' \<longrightarrow> y \<in> set (nodes s)"
    using s'(8) g by fastforce
  then show ?thesis
    using True s' by (simp add: bindE_def ret_def)
next
  case False
  then show ?thesis using assms by (simp add: ret_def)
qed

lemma glass_step:
  assumes "ids_below s" "has_node s sn"
  shows "\<exists>sn' s'. (if b then bindE (replace_shader_node env sn ''FP Glass'') (\<lambda>n.
                         bindE (modify (\<lambda>s. s\<lparr>blend_method := ''BLEND'', show_transparent_back := False\<rparr>)) (\<lambda>_.
                         ret (n, m')))
                       else ret (sn, m)) s = (Inr (sn', if b then m' else m), s')
     \<and> ids_below s' \<and> has_node s' sn'
     \<and> tree_of s' sn' = (if b then group_ref env ''FP Glass'' else tree_of s sn)
     \<and> use_sss_translucency s' = use_sss_translucency s
     \<and> (\<forall>y\<in>set (nodes s'). node_tree y = Some ''FP Foliage'' \<longrightarrow> y \<in> set (nodes s))"
proof (cases b)
  case True
  obtain s' where s': "replace_shader_node env sn ''FP Glass'' s = (Inr (next_id s), s')"
    "ids_below s'" "has_node s' (next_id s)" "tree_of s' (next_id s) = group_ref env ''FP Glass''"
    "use_sss_translucency s' = use_sss_translucency s"
    "\<forall>y\<in>set (nodes s'). node_tree y = group_ref env ''FP Glass'' \<or> y \<in> set (nodes s)"
    using replace_shader_node_props[OF assms(1,2), of env "''FP Glass''"] by blast
  have g: "group_ref env ''FP Glass'' \<noteq> Some ''FP Foliage''"
    by (auto simp: group_ref_def split: option.splits)
  have "\<forall>y\<in>set (nodes s'). node_tree y = Some ''FP Foliage'' \<longrightarrow> y \<in> set (nodes s)"
    using s'(6) g by fastforce
  then show ?thesis
    using True s' by (simp add: bindE_def ret_def modify_def ids_below_def has_node_def tree_of_def)
next
  case False
  then show ?thesis using assms by (simp add: ret_def)
qed

lemma foliage_step:
  assumes "ids_below s" "has_node s sn"
  shows "\<exists>sn' s'. (if b then bindE (replace_shader_node env sn ''FP Foliage'') (\<lambda>n.
                         bindE (modify (\<lambda>s. s\<lparr>use_sss_translucency := True\<rparr>)) (\<lambda>_.
                         ret (n, m')))
                       else ret (sn, m)) s = (Inr (sn', if b then m' else m), s')
     \<and> has_node s' sn'
     \<and> tree_of s' sn' = (if b then group_ref env ''FP Foliage'' else tree_of s sn)
     \<and> use_sss_translucency s' = (b \<or> use_sss_translucency s)
     \<and> (\<not> b \<longrightarrow> s' = s)"
proof (cases b)
  case True
  obtain s' where s': "replace_shader_node env sn ''FP Foliage'' s = (Inr (next_id s), s')"
    "ids_below s'" "has_node s' (next_id s)" "tree_of s' (next_id s) = group_ref env ''FP Foliage''"
    using replace_shader_node_props[OF assms(1,2), of env "''FP Foliage''"] by blast
  then show ?thesis
    using True by (simp add: bindE_def ret_def modify_def ids_below_def has_node_def tree_of_def)
next
  case False
  then show ?thesis using assms by (simp add: ret_def)
qed

lemma select_family_result:
  assumes inv: "ids_below s" "has_node s sn0"
    and tests: "layered_test md = Inr l" "toon_test md = Inr t" "trunk_test md = Inr k"
  shows "\<exists>sn s'. select_family env md sn0 s =
            (Inr (sn, chosen_mappings l t (valet_test md) (glass_test md) k
                        (truthy (md_UseFoliageMaterial md))), s')
     \<and> has_node s' sn
     \<and> tree_of s' sn =
         (case chosen_template l t (valet_test md) (glass_test md) k (truthy (md_UseFoliageMaterial md)) of
            None \<Rightarrow> tree_of s sn0
          | Some name \<Rightarrow> group_ref env name)
     \<and> use_sss_translucency s' = (foliage_test md k \<or> use_sss_translucency s)
     \<and> (\<not> foliage_test md k \<longrightarrow>
          (\<forall>y\<in>set (nodes s'). node_tree y = Some ''FP Foliage'' \<longrightarrow> y \<in> set (nodes s)))"
proof -
  let ?v = "valet_test md" and ?g = "glass_test md" and ?f = "foliage_test md k"
  obtain sn1 s1 where st1:
    "(if l then bindE (replace_shader_node env sn0 ''FP Layer'') (\<lambda>n. ret (n, layer_mappings))
      else ret (sn0, default_mappings)) s = (Inr (sn1, if l then layer_mappings else default_mappings), s1)"
    and i1: "ids_below s1" "has_node s1 sn1"
    and t1: "tree_of s1 sn1 = (if l then group_ref env ''FP Layer'' else tree_of s sn0)"
    and u1: "use_sss_translucency s1 = use_sss_translucency s"
    and n1: "\<forall>y\<in>set (nodes s1). node_tree y = Some ''FP Foliage'' \<longrightarrow> y \<in> set (nodes s)"
    using plain_step[OF inv, of "''FP Layer''" l env layer_mappings default_mappings] by auto
  let ?m1 = "if l then layer_mappings else default_mappings"
  obtain sn2 s2 where st2:
    "(if t then bindE (replace_shader_node env sn1 ''FP Toon'') (\<lambda>n. ret (n, toon_mappings))
      else ret (sn1, ?m1)) s1 = (Inr (sn2, if t then toon_mappings else ?m1), s2)"
    and i2: "ids_below s2" "has_node s2 sn2"
    and t2: "tree_of s2 sn2 = (if t then group_ref env ''FP Toon'' else tree_of s1 sn1)"
    and u2: "use_sss_translucency s2 = use_sss_translucency s1"
    and n2: "\<forall>y\<in>set (nodes s2). node_tree y = Some ''FP Foliage'' \<longrightarrow> y \<in> set (nodes s1)"
    using plain_step[OF i1, of "''FP Toon''" t env toon_mappings ?m1] by auto
  let ?m2 = "if t then toon_mappings else ?m1"
  obtain sn3 s3 where st3:
    "(if ?v then bindE (replace_shader_node env sn2 ''FP Valet'') (\<lambda>n. ret (n, valet_mappings))
      else ret (sn2, ?m2)) s2 = (Inr (sn3, if ?v then valet_mappings else ?m2), s3)"
    and i3: "ids_below s3" "has_node s3 sn3"
    and t3: "tree_of s3 sn3 = (if ?v then group_ref env ''FP Valet'' else tree_of s2 sn2)"
    and u3: "use_sss_translucency s3 = use_sss_translucency s2"
    and n3: "\<forall>y\<in>set (nodes s3). node_tree y = Some ''FP Foliage'' \<longrightarrow> y \<in> set (nodes s2)"
    using plain_step[OF i2, of "''FP Valet''" ?v env valet_mappings ?m2] by auto
  let ?m3 = "if ?v then valet_mappings else ?m2"
  obtain sn4 s4 where st4:
    "(if ?g then bindE (replace_shader_node env sn3 ''FP Glass'') (\<lambda>n.
          bindE (modify (\<lambda>s. s\<lparr>blend_method := ''BLEND'', show_transparent_back := False\<rparr>)) (\<lambda>_.
          ret (n, glass_mappings)))
      else ret (sn3, ?m3)) s3 = (Inr (sn4, if ?g then glass_mappings else ?m3), s4)"
    and i4: "ids_below s4" "has_node s4 sn4"
    and t4: "tree_of s4 sn4 = (if ?g then group_ref env ''FP Glass'' else tree_of s3 sn3)"
    and u4: "use_sss_translucency s4 = use_sss_translucency s3"
    and n4: "\<forall>y\<in>set (nodes s4). node_tree y = Some ''FP Foliage'' \<longrightarrow> y \<in> set (nodes s3)"
    using glass_step[OF i3, of ?g env glass_mappings ?m3] by auto
  let ?m4 = "if ?g then glass_mappings else ?m3"
  let ?m5 = "if k then trunk_mappings else ?m4"
  obtain sn5 s5 where st5:
    "(if ?f then bindE (replace_shader_node env sn4 ''FP Foliage'') (\<lambda>n.
          bindE (modify (\<lambda>s. s\<lparr>use_sss_translucency := True\<rparr>)) (\<lambda>_.
          ret (n, foliage_mappings)))
      else ret (sn4, ?m5)) s4 = (Inr (sn5, if ?f then foliage_mappings else ?m5), s5)"
    and i5: "has_node s5 sn5"
    and t5: "tree_of s5 sn5 = (if ?f then group_ref env ''FP Foliage'' else tree_of s4 sn4)"
    and u5: "use_sss_translucency s5 = (?f \<or> use_sss_translucency s4)"
    and n5: "\<not> ?f \<longrightarrow> s5 = s4"
    using foliage_step[OF i4, of ?f env foliage_mappings ?m5] by auto
  have run: "select_family env md sn0 s = (Inr (sn5, if ?f then foliage_mappings else ?m5), s5)"
    unfolding select_family_def
    by (simp add: bindE_def lift_def tests st1 st2 st3 st4 st5 ret_def)
  have maps: "(if ?f then foliage_mappings else ?m5)
      = chosen_mappings l t ?v ?g k (truthy (md_UseFoliageMaterial md))"
    by (auto simp: chosen_mappings_def foliage_test_def)
  have tree: "tree_of s5 sn5 =
      (case chosen_template l t ?v ?g k (truthy (md_UseFoliageMaterial md)) of
            None \<Rightarrow> tree_of s sn0
          | Some name \<Rightarrow> group_ref env name)"
    using t1 t2 t3 t4 t5 by (auto simp: chosen_template_def foliage_test_def)
  have sss: "use_sss_translucency s5 = (?f \<or> use_sss_translucency s)"
    using u1 u2 u3 u4 u5 by simp
  have nof: "\<not> ?f \<longrightarrow> (\<forall>y\<in>set (nodes s5). node_tree y = Some ''FP Foliage'' \<longrightarrow> y \<in> set (nodes s))"
    using n1 n2 n3 n4 n5 by blast
  show ?thesis
    using run maps i5 tree sss nof by auto
qed

subsection \<open>Family selection\<close>




lemma select_family_ignores_foliage_flag:
  assumes "trunk_test md = Inr True"
  shows "select_family env (md\<lparr>md_UseFoliageMaterial := f\<rparr>) sn0 s = select_family env md sn0 s"
proof -
  have a: "layered_test (md\<lparr>md_UseFoliageMaterial := f\<rparr>) = layered_test md"
    "toon_test (md\<lparr>md_UseFoliageMaterial := f\<rparr>) = toon_test md"
    "trunk_test (md\<lparr>md_UseFoliageMaterial := f\<rparr>) = trunk_test md"
    "valet_test (md\<lparr>md_UseFoliageMaterial := f\<rparr>) = valet_test md"
    "glass_test (md\<lparr>md_UseFoliageMaterial := f\<rparr>) = glass_test md"
    by (simp_all add: layered_test_def toon_test_def trunk_test_def valet_test_def glass_test_def
        cong: if_cong)
  have b: "bindE (lift (Inr True)) F = F True" for F :: "bool \<Rightarrow> (nat \<times> mapping_collection) act"
    by (rule ext) (simp add: bindE_def lift_def)
  show ?thesis
    unfolding select_family_def a assms b by (simp add: foliage_test_def)
qed

text \<open>
  C6. When the switch \<open>IsTrunk\<close> is true, the selection ends with the trunk mapping table
  whatever the foliage flag is: the flag has no influence on the result, no root node is
  replaced by the foliage group, and sub-surface translucency is left as it was.
\<close>

theorem trunk_excludes_foliage:
  assumes "ids_below s" and "has_node s sn0"
    and "layered_test md = Inr l" and "toon_test md = Inr t"
    and "trunk_test md = Inr True"
  shows "\<exists>sn s'. select_family env md sn0 s = (Inr (sn, trunk_mappings), s')
     \<and> (\<forall>f. select_family env (md\<lparr>md_UseFoliageMaterial := f\<rparr>) sn0 s = (Inr (sn, trunk_mappings), s'))
     \<and> use_sss_translucency s' = use_sss_translucency s
     \<and> (\<forall>y\<in>set (nodes s'). node_tree y = Some ''FP Foliage'' \<longrightarrow> y \<in> set (nodes s))
     \<and> (tree_of s sn0 \<noteq> Some ''FP Foliage'' \<longrightarrow> tree_of s' sn \<noteq> Some ''FP Foliage'')"
proof -
  obtain sn s' where r: "select_family env md sn0 s =
            (Inr (sn, chosen_mappings l t (valet_test md) (glass_test md) True
                        (truthy (md_UseFoliageMaterial md))), s')"
    and tr: "tree_of s' sn =
         (case chosen_template l t (valet_test md) (glass_test md) True (truthy (md_UseFoliageMaterial md)) of
            None \<Rightarrow> tree_of s sn0
          | Some name \<Rightarrow> group_ref env name)"
    and u: "use_sss_translucency s' = (foliage_test md True \<or> use_sss_translucency s)"
    and n: "\<not> foliage_test md True \<longrightarrow>
          (\<forall>y\<in>set (nodes s'). node_tree y = Some ''FP Foliage'' \<longrightarrow> y \<in> set (nodes s))"
    using select_family_result[OF assms, of env] by blast
  have m: "chosen_mappings l t (valet_test md) (glass_test md) True (truthy (md_UseFoliageMaterial md))
      = trunk_mappings"
    by (simp add: chosen_mappings_def)
  have nf: "\<not> foliage_test md True" by (simp add: foliage_test_def)
  have g: "group_ref env name \<noteq> Some ''FP Foliage''" if "name \<noteq> ''FP Foliage''" for name
    using that by (auto simp: group_ref_def split: option.splits)
  have t': "tree_of s sn0 \<noteq> Some ''FP Foliage'' \<longrightarrow> tree_of s' sn \<noteq> Some ''FP Foliage''"
    unfolding tr by (auto simp: chosen_template_def g)
  show ?thesis
    using r m u n nf t' select_family_ignores_foliage_flag[OF assms(5), of env _ sn0 s]
    by auto
qed

theorem trunk_excludes_foliage_witness:
  "ids_below root_state \<and> has_node root_state 0
   \<and> layered_test trunk_foliage_material = Inr False
   \<and> toon_test trunk_foliage_material = Inr False
   \<and> trunk_test trunk_foliage_material = Inr True
   \<and> truthy (md_UseFoliageMaterial trunk_foliage_material)
   \<and> map_sum id snd (fst (select_family sample_env trunk_foliage_material 0 root_state)) = Inr trunk_mappings
   \<and> use_sss_translucency (snd (select_family sample_env trunk_foliage_material 0 root_state))
       = use_sss_translucency root_state"
proof -
  have l: "layered_test trunk_foliage_material = Inr False" by code_simp
  have t: "toon_test trunk_foliage_material = Inr False" by code_simp
  have k: "trunk_test trunk_foliage_material = Inr True" by code_simp
  have f: "truthy (md_UseFoliageMaterial trunk_foliage_material)" by code_simp
  have i: "ids_below root_state" "has_node root_state 0" by code_simp+
  obtain sn s' where "select_family sample_env trunk_foliage_material 0 root_state = (Inr (sn, trunk_mappings), s')"
    "use_sss_translucency s' = use_sss_translucency root_state"
    using trunk_excludes_foliage[OF i l t k, of sample_env] by blast
  then have "map_sum id snd (fst (select_family sample_env trunk_foliage_material 0 root_state)) = Inr trunk_mappings"
    "use_sss_translucency (snd (select_family sample_env trunk_foliage_material 0 root_state))
       = use_sss_translucency root_state"
    by auto
  then show ?thesis using i l t k f by blast
qed

subsection \<open>Vertex crunch\<close>

lemma register_and_merge_slot_link:
  "register_and_merge env self (slot\<lparr>slot_link := l\<rparr>) md meta = register_and_merge env self slot md meta"
  by (simp add: register_and_merge_def)

text \<open>
  C5. On a material that is built (its fingerprint is not in the cache), when the resolved
  name is a vertex-crunch sentinel or the scalar \<open>HT_CrunchVerts\<close> equals 1,
  \<open>import_material\<close> ends right after the base graph: the material gets the property
  \<open>Crunch Verts\<close>, the input \<open>Alpha\<close> of the shader node is set to 0, and the material is
  otherwise as the base graph left it (no fix-up of the default family, no gradient pass,
  no toon brightness: nodes, links, the other inputs and \<open>is_toon\<close> are untouched).
\<close>

theorem vertex_crunch_short_circuit:
  assumes "imported_materials self (resolved_hash md meta) = None"
    and "register_and_merge env self slot md meta = Inr (self2, handle, merged)"
    and "build_base env merged (start_build self2 (materials self2 ! handle)) = (Inr shader_node, s1)"
    and "resolved_name md meta \<in> set [''MI_VertexCrunch'', ''M_VertexCrunch'']
         \<or> (\<exists>v. get_param (md_Scalars merged) ''HT_CrunchVerts'' = Inr v \<and> py_eq v (PInt 1))"
    and "find (\<lambda>x. node_id x = shader_node) (nodes s1) = Some x"
    and "index_of ''Alpha'' (map fst (node_inputs x)) = Some i"
  shows "import_material env self slot md meta =
     Inr (commit self2 handle
            (s1\<lparr>custom_props := (''Crunch Verts'', PBool True)
                                  # filter (\<lambda>kv. fst kv \<noteq> ''Crunch Verts'') (custom_props s1),
               nodes := map (\<lambda>y. if node_id y = shader_node
                                  then y\<lparr>node_inputs := (node_inputs y)[i := (fst (node_inputs y ! i), Some (PFloat 0))]\<rparr>
                                  else y) (nodes s1)\<rparr>),
          slot\<lparr>slot_link := ''OBJECT'', slot_material := Some handle\<rparr>, merged)"
proof -
  have c: "crunch_test (resolved_name md meta) merged = Inr True"
    using assms(4) by (auto simp: crunch_test_def)
  have g: "construct_graph env (resolved_name md meta) merged meta (start_build self2 (materials self2 ! handle)) =
     (Inr (),
      s1\<lparr>custom_props := (''Crunch Verts'', PBool True)
                            # filter (\<lambda>kv. fst kv \<noteq> ''Crunch Verts'') (custom_props s1),
         nodes := map (\<lambda>y. if node_id y = shader_node
                            then y\<lparr>node_inputs := (node_inputs y)[i := (fst (node_inputs y ! i), Some (PFloat 0))]\<rparr>
                            else y) (nodes s1)\<rparr>)"
    using assms(3,5,6) c
    by (simp add: construct_graph_def bindE_def lift_def mark_crunch_def modify_def set_named_input_def
        input_named_def get_node_def ret_def set_input_default_def update_node_def)
  show ?thesis
    using assms(1,2) g
    by (simp add: import_material_def Let_def register_and_merge_slot_link)
qed

theorem vertex_crunch_short_circuit_witness:
  "imported_materials sample_task (resolved_hash crunch_material (sample_meta [] [])) = None
   \<and> register_and_merge sample_env sample_task sample_slot crunch_material (sample_meta [] [])
       = Inr (crunch_task, 1, crunch_material)
   \<and> build_base sample_env crunch_material (start_build crunch_task (materials crunch_task ! 1))
       = (Inr 1, crunch_base)
   \<and> get_param (md_Scalars crunch_material) ''HT_CrunchVerts'' = Inr (PFloat 1)
   \<and> py_eq (PFloat 1) (PInt 1)
   \<and> isl (import_material sample_env sample_task sample_slot crunch_material (sample_meta [] [])) = False
   \<and> mat_custom_props (materials (fst (projr
         (import_material sample_env sample_task sample_slot crunch_material (sample_meta [] [])))) ! 1)
       = [(''Crunch Verts'', PBool True)]
   \<and> node_inputs (mat_nodes (materials (fst (projr
         (import_material sample_env sample_task sample_slot crunch_material (sample_meta [] [])))) ! 1) ! 1)
       = [(''Diffuse'', None), (''SpecularMasks'', None), (''Normals'', None), (''Emission'', None),
          (''Emission Strength'', None), (''Alpha'', Some (PFloat 0)), (''AO'', None),
          (''Cavity'', None), (''Subsurface'', None), (''Roughness Min'', None),
          (''SwizzleRoughnessToGreen'', None)]"
proof -
  let ?meta = "sample_meta [] []"
  have ah: "additional_hash_of crunch_material ?meta = 0"
    by (simp add: additional_hash_of_def sample_meta_def override_parameters_for_def)
  have rh: "resolved_hash crunch_material ?meta = 21" "resolved_name crunch_material ?meta = ''M_Hidden''"
    using ah by (simp_all add: resolved_hash_def resolved_name_def crunch_material_def)
  have m: "imported_materials sample_task (resolved_hash crunch_material ?meta) = None"
    by (simp add: sample_task_def)
  have cf: "casefold ''M_Body'' \<noteq> casefold ''M_Hidden''" by code_simp
  have mo: "merge_overrides crunch_material ?meta = Inr crunch_material"
    by (simp add: merge_overrides_def sample_meta_def override_parameters_for_def)
  have r: "register_and_merge sample_env sample_task sample_slot crunch_material ?meta
       = Inr (crunch_task, 1, crunch_material)"
    using cf by (simp add: register_and_merge_def Let_def rh mo crunch_task_def sample_task_def sample_slot_def)
  have sb: "start_build crunch_task (materials crunch_task ! 1) = empty_build"
    by (simp add: start_build_def crunch_task_def sample_task_def materials_new_def empty_build_def)
  have b0: "build_base sample_env crunch_material empty_build = (Inr 1, crunch_base)"
    by code_simp
  have b: "build_base sample_env crunch_material (start_build crunch_task (materials crunch_task ! 1))
       = (Inr 1, crunch_base)"
    using b0 by (simp only: sb)
  have g: "get_param (md_Scalars crunch_material) ''HT_CrunchVerts'' = Inr (PFloat 1)" by code_simp
  have e: "py_eq (PFloat 1) (PInt 1)" by code_simp
  have c: "resolved_name crunch_material ?meta \<in> set [''MI_VertexCrunch'', ''M_VertexCrunch'']
         \<or> (\<exists>v. get_param (md_Scalars crunch_material) ''HT_CrunchVerts'' = Inr v \<and> py_eq v (PInt 1))"
    using g e by blast
  have f: "find (\<lambda>x. node_id x = 1) (nodes crunch_base) = Some (nodes crunch_base ! 1)"
    by (simp add: crunch_base_def new_node_def)
  have i: "index_of ''Alpha'' (map fst (node_inputs (nodes crunch_base ! 1))) = Some 5"
    by (simp add: crunch_base_def new_node_def)
  note res = vertex_crunch_short_circuit[OF m r b c f i]
  have p1: "isl (import_material sample_env sample_task sample_slot crunch_material ?meta) = False"
    by (simp only: res sum.disc)
  have p2: "mat_custom_props (materials (fst (projr
         (import_material sample_env sample_task sample_slot crunch_material ?meta))) ! 1)
       = [(''Crunch Verts'', PBool True)]"
    unfolding res
    by (simp add: commit_def built_material_def crunch_task_def sample_task_def crunch_base_def
        empty_build_def)
  have p3: "node_inputs (mat_nodes (materials (fst (projr
         (import_material sample_env sample_task sample_slot crunch_material ?meta))) ! 1) ! 1)
       = [(''Diffuse'', None), (''SpecularMasks'', None), (''Normals'', None), (''Emission'', None),
          (''Emission Strength'', None), (''Alpha'', Some (PFloat 0)), (''AO'', None),
          (''Cavity'', None), (''Subsurface'', None), (''Roughness Min'', None),
          (''SwizzleRoughnessToGreen'', None)]"
    unfolding res
    by (simp add: commit_def built_material_def crunch_task_def sample_task_def crunch_base_def
        empty_build_def new_node_def)
  show ?thesis using m r b g e p1 p2 p3 by blast
qed

subsection \<open>The cache of a run\<close>

lemma import_material_hit:
  "imported_materials self (resolved_hash md meta) = Some h \<Longrightarrow>
   import_material env self slot md meta
     = Inr (self, slot\<lparr>slot_link := ''OBJECT'', slot_material := Some h\<rparr>, md)"
  by (simp add: import_material_def Let_def)

lemma register_and_merge_cache:
  assumes "register_and_merge env self slot md meta = Inr (self2, handle, merged)"
  shows "imported_materials self2 = (imported_materials self)(resolved_hash md meta \<mapsto> handle)"
  using assms
  by (auto simp: register_and_merge_def Let_def bindR_eq_Inr split: option.splits if_splits)

lemma import_material_miss:
  assumes n: "imported_materials self (resolved_hash md meta) = None"
    and r: "import_material env self slot md meta = Inr (self', slot', md')"
  shows "\<exists>handle self2 s.
           slot' = slot\<lparr>slot_link := ''OBJECT'', slot_material := Some handle\<rparr>
         \<and> self' = commit self2 handle s
         \<and> imported_materials self2 = (imported_materials self)(resolved_hash md meta \<mapsto> handle)"
proof -
  let ?slot = "slot\<lparr>slot_link := ''OBJECT''\<rparr>"
  from r n obtain self2 handle merged where
    g: "register_and_merge env self ?slot md meta = Inr (self2, handle, merged)"
    and c: "(case construct_graph env (resolved_name md meta) merged meta
                   (start_build self2 (materials self2 ! handle)) of
                (Inl e, s) \<Rightarrow> Inl e
              | (Inr u, s) \<Rightarrow> Inr (commit self2 handle s, ?slot\<lparr>slot_material := Some handle\<rparr>, merged))
             = Inr (self', slot', md')"
    by (auto simp: import_material_def Let_def bindR_eq_Inr)
  obtain res s where cs: "construct_graph env (resolved_name md meta) merged meta
      (start_build self2 (materials self2 ! handle)) = (res, s)"
    by (cases "construct_graph env (resolved_name md meta) merged meta
      (start_build self2 (materials self2 ! handle))") auto
  show ?thesis
  proof (cases res)
    case (Inl e)
    then show ?thesis using c cs by simp
  next
    case (Inr u)
    then have "self' = commit self2 handle s"
      "slot' = slot\<lparr>slot_link := ''OBJECT'', slot_material := Some handle\<rparr>"
      using c cs by simp_all
    then show ?thesis using register_and_merge_cache[OF g] by blast
  qed
qed

lemma import_material_registers:
  assumes "import_material env self slot md meta = Inr (self', slot', md')"
  shows "\<exists>h. slot_material slot' = Some h \<and> imported_materials self' (resolved_hash md meta) = Some h"
proof (cases "imported_materials self (resolved_hash md meta)")
  case (Some h)
  then show ?thesis using assms by (auto simp: import_material_hit)
next
  case None
  from import_material_miss[OF None assms] obtain handle self2 s where
    "slot' = slot\<lparr>slot_link := ''OBJECT'', slot_material := Some handle\<rparr>"
    "self' = commit self2 handle s"
    "imported_materials self2 = (imported_materials self)(resolved_hash md meta \<mapsto> handle)"
    by blast
  then show ?thesis by (simp add: commit_def)
qed

lemma import_material_keeps_cache:
  assumes "import_material env self slot md meta = Inr (self', slot', md')"
    and "imported_materials self k = Some h"
  shows "imported_materials self' k = Some h"
proof (cases "imported_materials self (resolved_hash md meta)")
  case (Some h')
  then show ?thesis using assms by (auto simp: import_material_hit)
next
  case None
  then have k: "k \<noteq> resolved_hash md meta" using assms(2) by auto
  from import_material_miss[OF None assms(1)] obtain handle self2 s where
    "self' = commit self2 handle s"
    "imported_materials self2 = (imported_materials self)(resolved_hash md meta \<mapsto> handle)"
    by blast
  then show ?thesis using k assms(2) by (simp add: commit_def)
qed

lemma import_run_keeps_cache:
  "import_run env self calls = Inr self' \<Longrightarrow> imported_materials self k = Some h \<Longrightarrow>
   imported_materials self' k = Some h"
proof (induction calls arbitrary: self)
  case Nil
  then show ?case by simp
next
  case (Cons c calls)
  obtain slot md meta where c: "c = (slot, md, meta)" by (cases c) auto
  from Cons.prems(1) c obtain self1 slot1 md1 where
    a: "import_material env self slot md meta = Inr (self1, slot1, md1)"
    and b: "import_run env self1 calls = Inr self'"
    by (auto simp: bindR_eq_Inr)
  show ?case
    using Cons.IH[OF b] import_material_keeps_cache[OF a Cons.prems(2)] by simp
qed

text \<open>
  C1. After an import of fingerprint \<open>h\<close> has returned, \<open>imported_materials\<close> holds at \<open>h\<close>
  the material given to the slot, and it still does after any further imports of the run.
  An import with the same fingerprint finds it there: it gives its slot that very material
  and changes nothing else, so no second graph is built.
\<close>

theorem import_material_cache_identity:
  assumes "import_material env self slot1 md1 meta1 = Inr (self1, slot1', md1')"
    and "import_run env self1 calls = Inr self2"
    and "resolved_hash md2 meta2 = resolved_hash md1 meta1"
  shows "slot_material slot1' \<noteq> None
       \<and> imported_materials self1 (resolved_hash md1 meta1) = slot_material slot1'
       \<and> imported_materials self2 (resolved_hash md2 meta2) = slot_material slot1'
       \<and> import_material env self2 slot2 md2 meta2
           = Inr (self2, slot2\<lparr>slot_link := ''OBJECT'', slot_material := slot_material slot1'\<rparr>, md2)"
proof -
  obtain h where h: "slot_material slot1' = Some h"
    "imported_materials self1 (resolved_hash md1 meta1) = Some h"
    using import_material_registers[OF assms(1)] by blast
  have "imported_materials self2 (resolved_hash md2 meta2) = Some h"
    using import_run_keeps_cache[OF assms(2) h(2)] assms(3) by simp
  then show ?thesis
    using h by (simp add: import_material_hit)
qed

theorem import_material_cache_identity_witness:
  "isl first_import = False
   \<and> isl later_imports = False
   \<and> imported_materials sample_task (resolved_hash crunch_material (sample_meta [] [])) = None
   \<and> slot_material sample_slot = Some 0
   \<and> slot_material (fst (snd (projr first_import))) = Some 1
   \<and> map mat_name (materials (projr later_imports)) = [''M_Body'', ''M_Hidden'']
   \<and> imported_materials (fst (projr first_import)) (resolved_hash crunch_material (sample_meta [] []))
       = Some 1
   \<and> imported_materials (projr later_imports) (resolved_hash crunch_material (sample_meta [] []))
       = Some 1
   \<and> slot_material other_slot = None
   \<and> import_material sample_env (projr later_imports) other_slot crunch_material (sample_meta [] [])
       = Inr (projr later_imports,
              other_slot\<lparr>slot_link := ''OBJECT'', slot_material := Some 1\<rparr>, crunch_material)"
proof -
  have a: "isl first_import = False" by code_simp
  then have b: "import_material sample_env sample_task sample_slot crunch_material (sample_meta [] [])
      = Inr (fst (projr first_import), fst (snd (projr first_import)), snd (snd (projr first_import)))"
    unfolding first_import_def[symmetric] by (cases first_import) auto
  have a2: "isl later_imports = False" by code_simp
  then have c: "import_run sample_env (fst (projr first_import))
                  [(sample_slot, sample_material, sample_meta [] [])] = Inr (projr later_imports)"
    unfolding later_imports_def[symmetric] by (cases later_imports) auto
  have d: "slot_material (fst (snd (projr first_import))) = Some 1" by code_simp
  have m: "map mat_name (materials (projr later_imports)) = [''M_Body'', ''M_Hidden'']" by code_simp
  have n: "imported_materials sample_task (resolved_hash crunch_material (sample_meta [] [])) = None"
    by (simp add: sample_task_def)
  have s: "slot_material sample_slot = Some 0" "slot_material other_slot = None"
    by (simp_all add: sample_slot_def other_slot_def)
  have e: "resolved_hash crunch_material (sample_meta [] []) = resolved_hash crunch_material (sample_meta [] [])"
    by simp
  show ?thesis
    using import_material_cache_identity[OF b c e, of other_slot] a a2 d m n s by simp
qed

end
